theory Spec2Isabelle
  imports Complex_Main
begin

section \<open>Strings of the runtime\<close>

text \<open>
  A JavaScript string is a sequence of UTF-16 code units. A code unit is modelled by its
  number, so a string is a list of naturals; \<open>str\<close> embeds an ASCII literal.
\<close>

type_synonym jsstring = "nat list"

definition str :: "string \<Rightarrow> jsstring" where
  "str cs = map of_char cs"

text \<open>
  The code units that ECMAScript calls WhiteSpace or LineTerminator. The same set is
  stripped by \<open>String.prototype.trim\<close>, matched by the class \<open>\s\<close> and skipped at the start
  of the argument of \<open>parseFloat\<close>: TAB, LF, VT, FF, CR, SP, NBSP, U+1680, U+2000 to
  U+200A, U+2028, U+2029, U+202F, U+205F, U+3000 and U+FEFF.
\<close>

definition is_space :: "nat \<Rightarrow> bool" where
  "is_space c = (c = 9 \<or> c = 10 \<or> c = 11 \<or> c = 12 \<or> c = 13 \<or> c = 32 \<or> c = 160 \<or> c = 5760
     \<or> (8192 \<le> c \<and> c \<le> 8202) \<or> c = 8232 \<or> c = 8233 \<or> c = 8239 \<or> c = 8287
     \<or> c = 12288 \<or> c = 65279)"

text \<open>The class \<open>\d\<close>: the ten ASCII digits.\<close>

definition is_digit :: "nat \<Rightarrow> bool" where
  "is_digit c = (48 \<le> c \<and> c \<le> 57)"

text \<open>\<open>intervalStr.trim()\<close>: white space removed from both ends.\<close>

definition trim :: "jsstring \<Rightarrow> jsstring" where
  "trim s = rev (dropWhile is_space (rev (dropWhile is_space s)))"

section \<open>The regular expression of the interval parser\<close>

text \<open>
  The pattern of \<open>intervalParser.ts\<close> is a sequence of character classes, each taken once,
  optionally (\<open>?\<close>), zero or more times (\<open>*\<close>) or one or more times (\<open>+\<close>). The
  quantifiers are greedy and the matcher backtracks, as the ECMAScript semantics prescribes:
  a quantified class first takes as many code units as it can and gives them back one by
  one when the rest of the pattern fails. The pattern is anchored by \<open>^\<close> and \<open>$\<close> without
  the multiline flag, so a match covers the whole string. \<open>backtrack\<close> returns the piece of
  the input taken by each item of the pattern.
\<close>

datatype item = One "nat \<Rightarrow> bool" | Opt "nat \<Rightarrow> bool" | Star "nat \<Rightarrow> bool" | Plus "nat \<Rightarrow> bool"

fun backtrack :: "item list \<Rightarrow> jsstring \<Rightarrow> jsstring list option" where
  "backtrack [] s = (if s = [] then Some [] else None)"
| "backtrack (One p # r) [] = None"
| "backtrack (One p # r) (c # s) =
     (if p c then map_option ((#) [c]) (backtrack r s) else None)"
| "backtrack (Opt p # r) [] = map_option ((#) []) (backtrack r [])"
| "backtrack (Opt p # r) (c # s) =
     (case (if p c then backtrack r s else None) of
        Some ps \<Rightarrow> Some ([c] # ps)
      | None \<Rightarrow> map_option ((#) []) (backtrack r (c # s)))"
| "backtrack (Star p # r) [] = map_option ((#) []) (backtrack r [])"
| "backtrack (Star p # r) (c # s) =
     (case (if p c then backtrack (Star p # r) s else None) of
        Some (q # ps) \<Rightarrow> Some ((c # q) # ps)
      | _ \<Rightarrow> map_option ((#) []) (backtrack r (c # s)))"
| "backtrack (Plus p # r) [] = None"
| "backtrack (Plus p # r) (c # s) =
     (if p c then
        (case backtrack (Star p # r) s of
           Some (q # ps) \<Rightarrow> Some ((c # q) # ps)
         | _ \<Rightarrow> None)
      else None)"

text \<open>
  \<open>/^([(\[])\s*(-?\d+\.?\d*)\s*,\s*(-?\d+\.?\d*)\s*([)\]])$/\<close>, item by item. Items 0 and
  14 are the two bracket groups, items 2 to 5 the first number group and items 9 to 12 the
  second one.
\<close>

definition interval_regex :: "item list" where
  "interval_regex =
     [One (\<lambda>c. c = 40 \<or> c = 91),
      Star is_space,
      Opt (\<lambda>c. c = 45), Plus is_digit, Opt (\<lambda>c. c = 46), Star is_digit,
      Star is_space,
      One (\<lambda>c. c = 44),
      Star is_space,
      Opt (\<lambda>c. c = 45), Plus is_digit, Opt (\<lambda>c. c = 46), Star is_digit,
      Star is_space,
      One (\<lambda>c. c = 41 \<or> c = 93)]"

text \<open>
  \<open>cleanStr.match(regex)\<close>: \<open>None\<close> for \<open>null\<close>, otherwise the four captured groups
  (the array without its element 0, which the caller skips when destructuring).
\<close>

definition regex_match :: "jsstring \<Rightarrow> (jsstring \<times> jsstring \<times> jsstring \<times> jsstring) option" where
  "regex_match s =
     (case backtrack interval_regex s of
        None \<Rightarrow> None
      | Some ps \<Rightarrow>
          Some (ps ! 0, concat (take 4 (drop 2 ps)), concat (take 4 (drop 9 ps)), ps ! 14))"

section \<open>Numbers of the runtime\<close>

text \<open>
  A Number is NaN, an infinity or a finite binary64 value; the finite values are modelled
  by the rationals they denote, and the two zeros, which every comparison identifies, by
  one. Which rational a decimal literal is rounded to is the business of the runtime
  ("the Number value for" a mathematical value, never NaN), and so are the digits printed
  for a Number that is not a small integer; both are parameters of the model, and every
  result holds for each of them.
\<close>

datatype fnumber = NegInf | Fin rat | PosInf

datatype number = NaN | Num fnumber

record runtime =
  number_value :: "rat \<Rightarrow> fnumber"
  number_to_string :: "number \<Rightarrow> jsstring"

fun fneg :: "fnumber \<Rightarrow> fnumber" where
  "fneg NegInf = PosInf"
| "fneg (Fin q) = Fin (- q)"
| "fneg PosInf = NegInf"

fun fless :: "fnumber \<Rightarrow> fnumber \<Rightarrow> bool" where
  "fless NegInf b = (b \<noteq> NegInf)"
| "fless (Fin p) NegInf = False"
| "fless (Fin p) (Fin q) = (p < q)"
| "fless (Fin p) PosInf = True"
| "fless PosInf b = False"

text \<open>
  The abstract operation IsLessThan: \<open>None\<close> is its result \<open>undefined\<close>, given when an
  operand is NaN. The four relational operators are defined from it as in ECMAScript.
\<close>

fun is_less_than :: "number \<Rightarrow> number \<Rightarrow> bool option" where
  "is_less_than (Num a) (Num b) = Some (fless a b)"
| "is_less_than a b = None"

definition js_lt :: "number \<Rightarrow> number \<Rightarrow> bool" where
  "js_lt a b = (is_less_than a b = Some True)"

definition js_gt :: "number \<Rightarrow> number \<Rightarrow> bool" where
  "js_gt a b = (is_less_than b a = Some True)"

definition js_le :: "number \<Rightarrow> number \<Rightarrow> bool" where
  "js_le a b = (is_less_than b a = Some False)"

definition js_ge :: "number \<Rightarrow> number \<Rightarrow> bool" where
  "js_ge a b = (is_less_than a b = Some False)"

definition isNaN :: "number \<Rightarrow> bool" where
  "isNaN a = (a = NaN)"

subsection \<open>parseFloat\<close>

text \<open>
  \<open>parseFloat\<close> skips leading white space, takes the longest prefix that is a
  StrDecimalLiteral (an optional sign, then \<open>Infinity\<close>, or digits with an optional
  fraction and exponent, or a fraction starting with the dot) and returns its value, or
  NaN when there is no such prefix. An exponent belongs to the prefix only when it is
  complete.
\<close>

definition digits_value :: "jsstring \<Rightarrow> nat" where
  "digits_value ds = foldl (\<lambda>a c. 10 * a + (c - 48)) 0 ds"

definition signed_integer :: "jsstring \<Rightarrow> int option" where
  "signed_integer s =
     (let u = (if take 1 s = [43] \<or> take 1 s = [45] then drop 1 s else s);
          ds = takeWhile is_digit u
      in if ds = [] then None
         else Some (if take 1 s = [45] then - int (digits_value ds) else int (digits_value ds)))"

definition exponent_part :: "jsstring \<Rightarrow> int" where
  "exponent_part s =
     (if take 1 s = [101] \<or> take 1 s = [69] then
        (case signed_integer (drop 1 s) of None \<Rightarrow> 0 | Some e \<Rightarrow> e)
      else 0)"

definition scale :: "rat \<Rightarrow> int \<Rightarrow> rat" where
  "scale m e = (if 0 \<le> e then m * 10 ^ nat e else m / 10 ^ nat (- e))"

datatype literal = LitInfinity | LitDecimal rat

definition unsigned_literal :: "jsstring \<Rightarrow> literal option" where
  "unsigned_literal s =
     (if take 8 s = str ''Infinity'' then Some LitInfinity
      else
        let ds = takeWhile is_digit s; r = dropWhile is_digit s in
        if ds \<noteq> [] then
          (if take 1 r = [46] then
             (let fs = takeWhile is_digit (drop 1 r); r' = dropWhile is_digit (drop 1 r) in
              Some (LitDecimal
                (scale (of_nat (digits_value ds) + of_nat (digits_value fs) / 10 ^ length fs)
                   (exponent_part r'))))
           else Some (LitDecimal (scale (of_nat (digits_value ds)) (exponent_part r))))
        else if take 1 s = [46] then
          (let fs = takeWhile is_digit (drop 1 s); r' = dropWhile is_digit (drop 1 s) in
           if fs = [] then None
           else Some (LitDecimal
                  (scale (of_nat (digits_value fs) / 10 ^ length fs) (exponent_part r'))))
        else None)"

definition parseFloat :: "runtime \<Rightarrow> jsstring \<Rightarrow> number" where
  "parseFloat rt s =
     (let t = dropWhile is_space s;
          u = (if take 1 t = [43] \<or> take 1 t = [45] then drop 1 t else t)
      in case unsigned_literal u of
           None \<Rightarrow> NaN
         | Some LitInfinity \<Rightarrow> Num (if take 1 t = [45] then NegInf else PosInf)
         | Some (LitDecimal q) \<Rightarrow>
             Num (if take 1 t = [45] then fneg (number_value rt q) else number_value rt q))"

section \<open>Values\<close>

text \<open>
  A cell of a row is a string or a number (\<open>types.ts\<close>); reading a key that the row does
  not have gives \<open>undefined\<close>.
\<close>

datatype jsvalue = Undefined | StringV jsstring | NumberV number

datatype error = TypeError

fun truthy :: "jsvalue \<Rightarrow> bool" where
  "truthy Undefined = False"
| "truthy (StringV s) = (s \<noteq> [])"
| "truthy (NumberV n) = (n \<noteq> NaN \<and> n \<noteq> Num (Fin 0))"

fun typeof :: "jsvalue \<Rightarrow> jsstring" where
  "typeof Undefined = str ''undefined''"
| "typeof (StringV s) = str ''string''"
| "typeof (NumberV n) = str ''number''"

text \<open>\<open>a || b\<close>: the left operand when it is truthy, the right one otherwise.\<close>

definition js_or :: "jsvalue \<Rightarrow> jsvalue \<Rightarrow> jsvalue" where
  "js_or a b = (if truthy a then a else b)"

text \<open>
  The conversion \<open>String(v)\<close>. An integer that binary64 holds exactly (up to \<open>2^53\<close> in
  magnitude) is printed by its decimal digits, NaN and the infinities by their names; the
  digits of every other number are chosen by the runtime.
\<close>

function nat_digits :: "nat \<Rightarrow> jsstring" where
  "nat_digits n = (if n < 10 then [48 + n] else nat_digits (n div 10) @ [48 + n mod 10])"
  by pat_completeness auto
termination
  by (relation "measure (\<lambda>n. n)") auto

fun number_text :: "runtime \<Rightarrow> number \<Rightarrow> jsstring" where
  "number_text rt NaN = str ''NaN''"
| "number_text rt (Num PosInf) = str ''Infinity''"
| "number_text rt (Num NegInf) = str ''-Infinity''"
| "number_text rt (Num (Fin q)) =
     (if of_int \<lfloor>q\<rfloor> = q \<and> \<bar>q\<bar> \<le> 9007199254740992 then
        (if q < 0 then 45 # nat_digits (nat (- \<lfloor>q\<rfloor>)) else nat_digits (nat \<lfloor>q\<rfloor>))
      else number_to_string rt (Num (Fin q)))"

fun to_string :: "runtime \<Rightarrow> jsvalue \<Rightarrow> jsstring" where
  "to_string rt Undefined = str ''undefined''"
| "to_string rt (StringV s) = s"
| "to_string rt (NumberV n) = number_text rt n"

text \<open>
  The method call \<open>v.trim()\<close>: a TypeError on a value that is not a string (\<open>undefined\<close>
  has no properties, a number has no such method).
\<close>

fun trim_method :: "jsvalue \<Rightarrow> error + jsstring" where
  "trim_method (StringV s) = Inr (trim s)"
| "trim_method v = Inl TypeError"

section \<open>The interval predicate\<close>

text \<open>
  \<open>isValueInInterval\<close> of \<open>utils/intervalParser.ts\<close>. The result is \<open>Inr\<close> the boolean
  returned, or \<open>Inl\<close> the exception thrown. The warning written to the console for a string
  that fails the pattern changes neither the result nor any state of the program and is
  left out.
\<close>

definition isValueInInterval :: "runtime \<Rightarrow> number \<Rightarrow> jsvalue \<Rightarrow> error + bool" where
  "isValueInInterval rt value intervalStr =
     (if \<not> truthy intervalStr \<or> typeof intervalStr \<noteq> str ''string'' then Inr False
      else
        case trim_method intervalStr of
          Inl e \<Rightarrow> Inl e
        | Inr cleanStr \<Rightarrow>
            (case regex_match cleanStr of
               None \<Rightarrow> Inr False
             | Some (startBracket, startValStr, endValStr, endBracket) \<Rightarrow>
                 let startVal = parseFloat rt startValStr;
                     endVal = parseFloat rt endValStr
                 in
                   if isNaN startVal \<or> isNaN endVal then Inr False
                   else
                     let isGreaterThanStart =
                           (if startBracket = str ''('' then js_gt value startVal
                            else if startBracket = str ''['' then js_ge value startVal
                            else False);
                         isLessThanEnd =
                           (if endBracket = str '')'' then js_lt value endVal
                            else if endBracket = str '']'' then js_le value endVal
                            else False)
                     in Inr (isGreaterThanStart \<and> isLessThanEnd)))"

section \<open>The row matcher\<close>

text \<open>
  A row is an object produced by the spreadsheet reader: a finite map from column names to
  cells. \<open>row[k]\<close> is \<open>undefined\<close> for a column the row does not have.
\<close>

type_synonym ExcelRow = "jsstring \<rightharpoonup> jsvalue"

definition get_prop :: "ExcelRow \<Rightarrow> jsstring \<Rightarrow> jsvalue" where
  "get_prop r k = (case r k of None \<Rightarrow> Undefined | Some v \<Rightarrow> v)"

record SearchInputs =
  s5 :: jsstring
  s10 :: jsstring
  s20 :: jsstring

record MatchResult =
  found :: bool
  row :: "ExcelRow option"
  error :: "jsstring option"

text \<open>
  \<open>a && b\<close> on the results of two calls: the right call is made only when the left one
  returned \<open>true\<close>, and an exception of either ends the evaluation.
\<close>

definition and_also :: "error + bool \<Rightarrow> error + bool \<Rightarrow> error + bool" where
  "and_also a b = (case a of Inl e \<Rightarrow> Inl e | Inr x \<Rightarrow> if x then b else Inr False)"

text \<open>The callback given to \<open>data.find\<close> in \<open>findMatch\<close>.\<close>

definition row_callback :: "runtime \<Rightarrow> number \<Rightarrow> number \<Rightarrow> number \<Rightarrow> ExcelRow \<Rightarrow> error + bool" where
  "row_callback rt s5Val s10Val s20Val r =
     (let bin5 = to_string rt (js_or (js_or (get_prop r (str ''s5_now_bin''))
                   (get_prop r (str ''s5 now bin''))) (StringV []));
          bin10 = to_string rt (js_or (js_or (get_prop r (str ''s10_now_bin''))
                   (get_prop r (str ''s10 now bin''))) (StringV []));
          bin20 = to_string rt (js_or (js_or (get_prop r (str ''s20_now_bin''))
                   (get_prop r (str ''s20 now bin''))) (StringV []))
      in and_also
           (and_also (isValueInInterval rt s5Val (StringV bin5))
                     (isValueInInterval rt s10Val (StringV bin10)))
           (isValueInInterval rt s20Val (StringV bin20)))"

text \<open>
  \<open>Array.prototype.find\<close>: the elements are visited in index order, the first one on which
  the callback returns \<open>true\<close> is the result, and \<open>None\<close> stands for \<open>undefined\<close>.
\<close>

fun array_find :: "('a \<Rightarrow> error + bool) \<Rightarrow> 'a list \<Rightarrow> error + 'a option" where
  "array_find p [] = Inr None"
| "array_find p (x # xs) =
     (case p x of
        Inl e \<Rightarrow> Inl e
      | Inr b \<Rightarrow> if b then Inr (Some x) else array_find p xs)"

text \<open>
  The state of the component that \<open>findMatch\<close> reads or writes: the loaded rows, the three
  input strings, the result shown, and the messages shown by \<open>alert\<close>. The handler touches
  no other hook of the component.
\<close>

record app_state =
  data :: "ExcelRow list"
  inputs :: SearchInputs
  matchResult :: "MatchResult option"
  alerts :: "jsstring list"

text \<open>The text of the alert, in code units.\<close>

definition invalid_number_alert :: jsstring where
  "invalid_number_alert = [35831, 36755, 20837, 26377, 25928, 30340, 25968, 23383, 12290]"

text \<open>
  The search proper: \<open>data.find(row => ...)\<close> and the MatchResult built from what it
  returns. A row is an object, hence truthy, so the conditional tests for \<open>undefined\<close>.
\<close>

definition search :: "runtime \<Rightarrow> ExcelRow list \<Rightarrow> number \<Rightarrow> number \<Rightarrow> number \<Rightarrow> error + MatchResult" where
  "search rt rows s5Val s10Val s20Val =
     (case array_find (row_callback rt s5Val s10Val s20Val) rows of
        Inl e \<Rightarrow> Inl e
      | Inr foundRow \<Rightarrow>
          Inr (case foundRow of
                 Some r \<Rightarrow> \<lparr>found = True, row = Some r, error = None\<rparr>
               | None \<Rightarrow> \<lparr>found = False, row = None, error = None\<rparr>))"

text \<open>
  The submit handler \<open>findMatch\<close>, as a function from the state before to the state after
  (or the exception thrown). Its first statement, \<open>e.preventDefault()\<close>, acts on the event
  and on none of these fields.
\<close>

definition findMatch :: "runtime \<Rightarrow> app_state \<Rightarrow> error + app_state" where
  "findMatch rt st =
     (if \<not> truthy (StringV (s5 (inputs st))) \<or> \<not> truthy (StringV (s10 (inputs st)))
          \<or> \<not> truthy (StringV (s20 (inputs st)))
      then Inr st
      else
        let s5Val = parseFloat rt (s5 (inputs st));
            s10Val = parseFloat rt (s10 (inputs st));
            s20Val = parseFloat rt (s20 (inputs st))
        in
          if isNaN s5Val \<or> isNaN s10Val \<or> isNaN s20Val
          then Inr (st\<lparr>alerts := alerts st @ [invalid_number_alert]\<rparr>)
          else
            case search rt (data st) s5Val s10Val s20Val of
              Inl e \<Rightarrow> Inl e
            | Inr res \<Rightarrow> Inr (st\<lparr>matchResult := Some res\<rparr>))"

section \<open>Vocabulary of the statements\<close>

text \<open>
  What it means for a piece of the input to be taken by an item of the pattern: the
  declarative reading of the four quantifiers.
\<close>

fun item_matches :: "item \<Rightarrow> jsstring \<Rightarrow> bool" where
  "item_matches (One p) q = (length q = 1 \<and> list_all p q)"
| "item_matches (Opt p) q = (length q \<le> 1 \<and> list_all p q)"
| "item_matches (Star p) q = list_all p q"
| "item_matches (Plus p) q = (q \<noteq> [] \<and> list_all p q)"

text \<open>
  The strings of the pattern, stated without the matcher: a bracket, white space, a number,
  white space, a comma, white space, a number, white space and a bracket, where a number is
  an optional minus sign, one or more digits, an optional dot and zero or more digits.
\<close>

definition pattern_number :: "jsstring \<Rightarrow> bool" where
  "pattern_number n =
     (\<exists>sg ds dot ms. n = sg @ ds @ dot @ ms
        \<and> (sg = [] \<or> sg = str ''-'')
        \<and> ds \<noteq> [] \<and> list_all is_digit ds
        \<and> (dot = [] \<or> dot = str ''.'')
        \<and> list_all is_digit ms)"

definition pattern_interval :: "jsstring \<Rightarrow> bool" where
  "pattern_interval t =
     (\<exists>b1 w1 n1 w2 w3 n2 w4 b2.
        t = b1 @ w1 @ n1 @ w2 @ str '','' @ w3 @ n2 @ w4 @ b2
        \<and> (b1 = str ''('' \<or> b1 = str ''['')
        \<and> list_all is_space w1 \<and> pattern_number n1 \<and> list_all is_space w2
        \<and> list_all is_space w3 \<and> pattern_number n2 \<and> list_all is_space w4
        \<and> (b2 = str '')'' \<or> b2 = str '']''))"

text \<open>
  The grammar in the words of the specification: one of \<open>(\<close> or \<open>[\<close>, optional white space,
  a signed decimal number, optional white space, a comma, optional white space, a second
  signed decimal number, optional white space, one of \<open>)\<close> or \<open>]\<close>, and nothing else; a
  signed decimal number is an optional sign, digits, an optional dot and more digits. A
  sign is a plus or a minus.
\<close>

definition spec_number :: "jsstring \<Rightarrow> bool" where
  "spec_number n =
     (\<exists>sg ds dot ms. n = sg @ ds @ dot @ ms
        \<and> (sg = [] \<or> sg = str ''+'' \<or> sg = str ''-'')
        \<and> ds \<noteq> [] \<and> list_all is_digit ds
        \<and> (dot = [] \<or> dot = str ''.'')
        \<and> list_all is_digit ms)"

definition spec_interval :: "jsstring \<Rightarrow> bool" where
  "spec_interval t =
     (\<exists>b1 w1 n1 w2 w3 n2 w4 b2.
        t = b1 @ w1 @ n1 @ w2 @ str '','' @ w3 @ n2 @ w4 @ b2
        \<and> (b1 = str ''('' \<or> b1 = str ''['')
        \<and> list_all is_space w1 \<and> spec_number n1 \<and> list_all is_space w2
        \<and> list_all is_space w3 \<and> spec_number n2 \<and> list_all is_space w4
        \<and> (b2 = str '')'' \<or> b2 = str '']''))"

text \<open>
  The number that a bound of the pattern denotes as it is written, before any rounding: the
  digits before the dot, plus the digits after it as a decimal fraction, negated after a
  minus sign.
\<close>

definition written_value :: "jsstring \<Rightarrow> rat" where
  "written_value n =
     (let u = (if take 1 n = [45] then drop 1 n else n);
          ds = takeWhile is_digit u;
          fs = takeWhile is_digit (drop 1 (dropWhile is_digit u));
          m = of_nat (digits_value ds) + of_nat (digits_value fs) / 10 ^ length fs
      in if take 1 n = [45] then - m else m)"

text \<open>
  The path condition of \<open>isValueInInterval\<close> up to the bound tests: the argument passes the
  guard of the first line and its trimmed text matches the pattern.
\<close>

definition passes_grammar_check :: "jsvalue \<Rightarrow> bool" where
  "passes_grammar_check x =
     (truthy x \<and> typeof x = str ''string''
      \<and> (case trim_method x of Inl e \<Rightarrow> False | Inr cleanStr \<Rightarrow> regex_match cleanStr \<noteq> None))"

text \<open>
  Every integer up to \<open>2^53\<close> is a binary64 value, so the Number value of such an integer
  is the integer itself. The concrete examples of the specification need no more of the
  rounding than this.
\<close>

definition exact_on_integers :: "runtime \<Rightarrow> bool" where
  "exact_on_integers rt =
     (\<forall>n::nat. n \<le> 9007199254740992 \<longrightarrow> number_value rt (of_nat n) = Fin (of_nat n))"

text \<open>
  An instance of the two parameters, for exhibiting inputs that meet the hypotheses of the
  theorems: every decimal literal denotes itself. No statement reads how this instance
  prints a number.
\<close>

definition exact_runtime :: runtime where
  "exact_runtime = \<lparr>number_value = Fin, number_to_string = (\<lambda>n. [])\<rparr>"

text \<open>
  The rounding of an actual runtime: the binary64 value nearest to a non-negative
  rational, ties going to the even significand. The rational is brought to the form
  \<open>m * 2^e\<close> with \<open>2^52 \<le> m < 2^53\<close>, or with \<open>e = -1074\<close> for a subnormal, in at most 1100
  halvings or doublings; \<open>m\<close> is rounded to an integer; and a result of \<open>2^1024\<close> or more is
  infinity. The instance \<open>binary64_runtime\<close> rounds so; no statement reads how it prints a
  number.
\<close>

definition round_half_even :: "rat \<Rightarrow> int" where
  "round_half_even x =
     (let f = \<lfloor>x\<rfloor>; d = x - of_int f
      in if d < 1 / 2 then f else if 1 / 2 < d then f + 1 else if even f then f else f + 1)"

function normalise :: "nat \<Rightarrow> rat \<Rightarrow> int \<Rightarrow> rat \<times> int" where
  "normalise k m e =
     (if k = 0 then (m, e)
      else if 9007199254740992 \<le> m then normalise (k - 1) (m / 2) (e + 1)
      else if m < 4503599627370496 \<and> - 1074 < e then normalise (k - 1) (m * 2) (e - 1)
      else (m, e))"
  by pat_completeness auto
termination
  by (relation "measure (\<lambda>(k, m, e). k)") auto

definition scale2 :: "rat \<Rightarrow> int \<Rightarrow> rat" where
  "scale2 m e = (if 0 \<le> e then m * 2 ^ nat e else m / 2 ^ nat (- e))"

definition binary64_value :: "rat \<Rightarrow> fnumber" where
  "binary64_value q =
     (if 2 ^ 1024 \<le> q then PosInf
      else
        let (m, e) = normalise 1100 q 0;
            r = scale2 (of_int (round_half_even m)) e
        in if 2 ^ 1024 \<le> r then PosInf else Fin r)"

definition binary64_runtime :: runtime where
  "binary64_runtime = \<lparr>number_value = binary64_value, number_to_string = (\<lambda>n. [])\<rparr>"

text \<open>
  The text that the callback of \<open>findMatch\<close> computes for one bin column, here with the two
  spellings of the column name as arguments, and the conjunction of the three calls of the
  predicate on a row.
\<close>

definition bin_field :: "runtime \<Rightarrow> ExcelRow \<Rightarrow> jsstring \<Rightarrow> jsstring \<Rightarrow> jsstring" where
  "bin_field rt r underscore space =
     to_string rt (js_or (js_or (get_prop r underscore) (get_prop r space)) (StringV []))"

definition all_three :: "runtime \<Rightarrow> number \<Rightarrow> number \<Rightarrow> number \<Rightarrow> ExcelRow \<Rightarrow> bool" where
  "all_three rt a b c r =
     (isValueInInterval rt a (StringV (bin_field rt r (str ''s5_now_bin'') (str ''s5 now bin'')))
        = Inr True
      \<and> isValueInInterval rt b (StringV (bin_field rt r (str ''s10_now_bin'') (str ''s10 now bin'')))
        = Inr True
      \<and> isValueInInterval rt c (StringV (bin_field rt r (str ''s20_now_bin'') (str ''s20 now bin'')))
        = Inr True)"

text \<open>
  The resolution of a bin column in the words of the specification: the underscore key if
  the row has it, otherwise the space key if the row has it, otherwise the empty string;
  the value found is converted to text.
\<close>

definition spec_bin_field :: "runtime \<Rightarrow> ExcelRow \<Rightarrow> jsstring \<Rightarrow> jsstring \<Rightarrow> jsstring" where
  "spec_bin_field rt r underscore space =
     (case r underscore of
        Some v \<Rightarrow> to_string rt v
      | None \<Rightarrow> (case r space of Some v \<Rightarrow> to_string rt v | None \<Rightarrow> []))"

text \<open>The same row with one column under another name.\<close>

definition rename_column :: "ExcelRow \<Rightarrow> jsstring \<Rightarrow> jsstring \<Rightarrow> ExcelRow" where
  "rename_column r old new = (r(old := None))(new := r old)"

text \<open>
  An input string fails to parse when \<open>parseFloat\<close> returns NaN for it, which is the test
  of \<open>findMatch\<close>. The empty string fails to parse; a string that starts with a decimal
  literal parses as that literal, whatever follows it.
\<close>

definition fails_to_parse :: "runtime \<Rightarrow> SearchInputs \<Rightarrow> bool" where
  "fails_to_parse rt i =
     (isNaN (parseFloat rt (s5 i)) \<or> isNaN (parseFloat rt (s10 i)) \<or> isNaN (parseFloat rt (s20 i)))"

definition some_empty :: "SearchInputs \<Rightarrow> bool" where
  "some_empty i = (s5 i = [] \<or> s10 i = [] \<or> s20 i = [])"

text \<open>
  The dataset of two rows from the specification, and a state of the component that holds
  it together with three input strings, no result and no alert shown.
\<close>

definition example_row1 :: ExcelRow where
  "example_row1 =
     [str ''s5_now_bin'' \<mapsto> StringV (str ''(-50,-45]''),
      str ''s10_now_bin'' \<mapsto> StringV (str ''[0,5)''),
      str ''s20_now_bin'' \<mapsto> StringV (str ''(10,20]''),
      str ''stat'' \<mapsto> NumberV (Num (Fin 1))]"

definition example_row2 :: ExcelRow where
  "example_row2 =
     [str ''s5_now_bin'' \<mapsto> StringV (str ''[-45,-40)''),
      str ''s10_now_bin'' \<mapsto> StringV (str ''[0,5)''),
      str ''s20_now_bin'' \<mapsto> StringV (str ''(10,20]''),
      str ''stat'' \<mapsto> NumberV (Num (Fin 2))]"

definition example_state :: "jsstring \<Rightarrow> jsstring \<Rightarrow> jsstring \<Rightarrow> app_state" where
  "example_state x y z =
     \<lparr>data = [example_row1, example_row2], inputs = \<lparr>s5 = x, s10 = y, s20 = z\<rparr>,
      matchResult = None, alerts = []\<rparr>"

text \<open>The first of these rows with the three bin columns spelled with spaces.\<close>

definition space_row :: ExcelRow where
  "space_row =
     [str ''s5 now bin'' \<mapsto> StringV (str ''(-50,-45]''),
      str ''s10 now bin'' \<mapsto> StringV (str ''[0,5)''),
      str ''s20 now bin'' \<mapsto> StringV (str ''(10,20]''),
      str ''stat'' \<mapsto> NumberV (Num (Fin 1))]"

text \<open>
  Two rows whose underscore column for s5 is present and falsy: the empty string, beside a
  space column that holds an interval, and the number 0.
\<close>

definition falsy_row :: ExcelRow where
  "falsy_row =
     [str ''s5_now_bin'' \<mapsto> StringV [],
      str ''s5 now bin'' \<mapsto> StringV (str ''(-50,-45]''),
      str ''s10_now_bin'' \<mapsto> StringV (str ''[0,5)''),
      str ''s20_now_bin'' \<mapsto> StringV (str ''(10,20]''),
      str ''stat'' \<mapsto> NumberV (Num (Fin 1))]"

definition zero_row :: ExcelRow where
  "zero_row =
     [str ''s5_now_bin'' \<mapsto> NumberV (Num (Fin 0)),
      str ''s10_now_bin'' \<mapsto> StringV (str ''[0,5)''),
      str ''s20_now_bin'' \<mapsto> StringV (str ''(10,20]''),
      str ''stat'' \<mapsto> NumberV (Num (Fin 1))]"

section \<open>The matcher of the pattern is sound and complete\<close>

lemma backtrack_sound:
  "backtrack its s = Some ps \<Longrightarrow> concat ps = s \<and> list_all2 item_matches its ps"
proof (induction its s arbitrary: ps rule: backtrack.induct)
  case (1 s)
  then show ?case by (auto split: if_splits)
next
  case (2 p r)
  then show ?case by simp
next
  case (3 p r c s)
  then show ?case by (auto split: if_splits)
next
  case (4 p r)
  then show ?case by auto
next
  case (5 p r c s)
  then show ?case by (auto split: if_splits option.splits)
next
  case (6 p r)
  then show ?case by auto
next
  case (7 p r c s)
  then show ?case by (auto split: if_splits option.splits list.splits)
next
  case (8 p r)
  then show ?case by simp
next
  case (9 p r c s)
  then show ?case by (auto split: if_splits option.splits list.splits)
qed

lemma backtrack_star_complete:
  "list_all p q \<Longrightarrow> backtrack r s \<noteq> None \<Longrightarrow> backtrack (Star p # r) (q @ s) \<noteq> None"
proof (induction q)
  case Nil
  then show ?case by (cases s) (auto split: option.splits list.splits)
next
  case (Cons c q)
  then show ?case by (auto split: option.splits list.splits dest: backtrack_sound)
qed

lemma backtrack_opt_skip:
  "backtrack r s \<noteq> None \<Longrightarrow> backtrack (Opt p # r) s \<noteq> None"
  by (cases s) (auto split: option.splits)

lemma backtrack_opt_take:
  "p c \<Longrightarrow> backtrack r s \<noteq> None \<Longrightarrow> backtrack (Opt p # r) (c # s) \<noteq> None"
  by (auto split: option.splits)

lemma backtrack_complete:
  "list_all2 item_matches its ps \<Longrightarrow> backtrack its (concat ps) \<noteq> None"
proof (induction its ps rule: list_all2_induct)
  case Nil
  then show ?case by simp
next
  case (Cons i its q ps)
  show ?case
  proof (cases i)
    case (One p)
    with Cons show ?thesis by (cases q) auto
  next
    case (Opt p)
    show ?thesis
    proof (cases q)
      case Nil
      with Opt Cons.IH show ?thesis using backtrack_opt_skip by simp
    next
      case (Cons c q')
      with Opt Cons.hyps(1) have "q = [c]" "p c" by auto
      with Opt Cons.IH show ?thesis using backtrack_opt_take by simp
    qed
  next
    case (Star p)
    with Cons show ?thesis using backtrack_star_complete by simp
  next
    case (Plus p)
    with Cons obtain c q' where q: "q = c # q'" "p c" "list_all p q'"
      by (cases q) auto
    from q(3) Cons.IH have "backtrack (Star p # its) (q' @ concat ps) \<noteq> None"
      by (rule backtrack_star_complete)
    with q Plus show ?thesis
      by (auto split: option.splits list.splits dest: backtrack_sound)
  qed
qed

lemma item_matches_One: "item_matches (One p) q \<longleftrightarrow> (\<exists>c. q = [c] \<and> p c)"
  by (cases q) auto

lemma item_matches_Opt: "item_matches (Opt p) q \<longleftrightarrow> (q = [] \<or> (\<exists>c. q = [c] \<and> p c))"
  by (cases q) auto

lemma length_15:
  assumes "length ps = 15"
  obtains a0 a1 a2 a3 a4 a5 a6 a7 a8 a9 a10 a11 a12 a13 a14
  where "ps = [a0, a1, a2, a3, a4, a5, a6, a7, a8, a9, a10, a11, a12, a13, a14]"
  using assms by (auto simp: length_Suc_conv eval_nat_numeral)

lemma regex_pieces:
  assumes "list_all2 item_matches interval_regex ps"
  obtains b1 w1 sg1 ds1 dot1 ms1 w2 w3 sg2 ds2 dot2 ms2 w4 b2
  where "ps = [b1, w1, sg1, ds1, dot1, ms1, w2, str '','', w3, sg2, ds2, dot2, ms2, w4, b2]"
    and "b1 = str ''('' \<or> b1 = str ''[''"
    and "list_all is_space w1"
    and "sg1 = [] \<or> sg1 = str ''-''" and "ds1 \<noteq> []" and "list_all is_digit ds1"
    and "dot1 = [] \<or> dot1 = str ''.''" and "list_all is_digit ms1"
    and "list_all is_space w2" and "list_all is_space w3"
    and "sg2 = [] \<or> sg2 = str ''-''" and "ds2 \<noteq> []" and "list_all is_digit ds2"
    and "dot2 = [] \<or> dot2 = str ''.''" and "list_all is_digit ms2"
    and "list_all is_space w4"
    and "b2 = str '')'' \<or> b2 = str '']''"
proof -
  from assms have "length ps = 15"
    by (auto dest: list_all2_lengthD simp: interval_regex_def)
  then obtain a0 a1 a2 a3 a4 a5 a6 a7 a8 a9 a10 a11 a12 a13 a14
    where ps: "ps = [a0, a1, a2, a3, a4, a5, a6, a7, a8, a9, a10, a11, a12, a13, a14]"
    by (rule length_15)
  from assms have m:
    "item_matches (One (\<lambda>c. c = 40 \<or> c = 91)) a0" "item_matches (Star is_space) a1"
    "item_matches (Opt (\<lambda>c. c = 45)) a2" "item_matches (Plus is_digit) a3"
    "item_matches (Opt (\<lambda>c. c = 46)) a4" "item_matches (Star is_digit) a5"
    "item_matches (Star is_space) a6" "item_matches (One (\<lambda>c. c = 44)) a7"
    "item_matches (Star is_space) a8"
    "item_matches (Opt (\<lambda>c. c = 45)) a9" "item_matches (Plus is_digit) a10"
    "item_matches (Opt (\<lambda>c. c = 46)) a11" "item_matches (Star is_digit) a12"
    "item_matches (Star is_space) a13" "item_matches (One (\<lambda>c. c = 41 \<or> c = 93)) a14"
    unfolding ps interval_regex_def by simp_all
  have "a7 = str '',''" using m(8) by (auto simp: item_matches_One str_def simp del: item_matches.simps)
  moreover have "a0 = str ''('' \<or> a0 = str ''[''"
    using m(1) by (auto simp: item_matches_One str_def simp del: item_matches.simps)
  moreover have "a14 = str '')'' \<or> a14 = str '']''"
    using m(15) by (auto simp: item_matches_One str_def simp del: item_matches.simps)
  moreover have "a2 = [] \<or> a2 = str ''-''" "a9 = [] \<or> a9 = str ''-''"
    using m(3,10) by (auto simp: item_matches_Opt str_def simp del: item_matches.simps)
  moreover have "a4 = [] \<or> a4 = str ''.''" "a11 = [] \<or> a11 = str ''.''"
    using m(5,12) by (auto simp: item_matches_Opt str_def simp del: item_matches.simps)
  ultimately show thesis
    using that[of a0 a1 a2 a3 a4 a5 a6 a8 a9 a10 a11 a12 a13 a14] ps m(2,4,6,7,9,11,13,14)
    by simp
qed

lemma regex_match_SomeD:
  assumes "regex_match t = Some (b1, lo, hi, b2)"
  shows "\<exists>w1 w2 w3 w4.
           t = b1 @ w1 @ lo @ w2 @ str '','' @ w3 @ hi @ w4 @ b2
           \<and> (b1 = str ''('' \<or> b1 = str ''['')
           \<and> list_all is_space w1 \<and> pattern_number lo \<and> list_all is_space w2
           \<and> list_all is_space w3 \<and> pattern_number hi \<and> list_all is_space w4
           \<and> (b2 = str '')'' \<or> b2 = str '']'')"
proof -
  from assms obtain ps where bt: "backtrack interval_regex t = Some ps"
    and caps: "b1 = ps ! 0" "lo = concat (take 4 (drop 2 ps))"
      "hi = concat (take 4 (drop 9 ps))" "b2 = ps ! 14"
    by (auto simp: regex_match_def split: option.splits)
  from backtrack_sound[OF bt] have t: "concat ps = t"
    and all: "list_all2 item_matches interval_regex ps" by simp_all
  from all obtain c1 w1 sg1 ds1 dot1 ms1 w2 w3 sg2 ds2 dot2 ms2 w4 c2
    where ps: "ps = [c1, w1, sg1, ds1, dot1, ms1, w2, str '','', w3, sg2, ds2, dot2, ms2, w4, c2]"
      and c1: "c1 = str ''('' \<or> c1 = str ''[''"
      and w1: "list_all is_space w1"
      and n1: "sg1 = [] \<or> sg1 = str ''-''" "ds1 \<noteq> []" "list_all is_digit ds1"
        "dot1 = [] \<or> dot1 = str ''.''" "list_all is_digit ms1"
      and w2: "list_all is_space w2" and w3: "list_all is_space w3"
      and n2: "sg2 = [] \<or> sg2 = str ''-''" "ds2 \<noteq> []" "list_all is_digit ds2"
        "dot2 = [] \<or> dot2 = str ''.''" "list_all is_digit ms2"
      and w4: "list_all is_space w4"
      and c2: "c2 = str '')'' \<or> c2 = str '']''"
    by (rule regex_pieces)
  have b1: "b1 = c1" and b2: "b2 = c2" and lo: "lo = sg1 @ ds1 @ dot1 @ ms1"
    and hi: "hi = sg2 @ ds2 @ dot2 @ ms2"
    using caps by (simp_all add: ps)
  have "pattern_number lo" unfolding pattern_number_def lo using n1 by blast
  moreover have "pattern_number hi" unfolding pattern_number_def hi using n2 by blast
  moreover have "t = b1 @ w1 @ lo @ w2 @ str '','' @ w3 @ hi @ w4 @ b2"
    using t by (simp add: ps b1 b2 lo hi)
  ultimately show ?thesis using c1 c2 w1 w2 w3 w4 b1 b2 by blast
qed

lemma pattern_interval_matches:
  assumes "pattern_interval t"
  shows "regex_match t \<noteq> None"
proof -
  from assms obtain b1 w1 n1 w2 w3 n2 w4 b2 where
    t: "t = b1 @ w1 @ n1 @ w2 @ str '','' @ w3 @ n2 @ w4 @ b2"
    and b: "b1 = str ''('' \<or> b1 = str ''[''" "b2 = str '')'' \<or> b2 = str '']''"
    and w: "list_all is_space w1" "list_all is_space w2" "list_all is_space w3"
      "list_all is_space w4"
    and n: "pattern_number n1" "pattern_number n2"
    unfolding pattern_interval_def by blast
  from n(1) obtain sg1 ds1 dot1 ms1 where n1: "n1 = sg1 @ ds1 @ dot1 @ ms1"
    "sg1 = [] \<or> sg1 = str ''-''" "ds1 \<noteq> []" "list_all is_digit ds1"
    "dot1 = [] \<or> dot1 = str ''.''" "list_all is_digit ms1"
    unfolding pattern_number_def by blast
  from n(2) obtain sg2 ds2 dot2 ms2 where n2: "n2 = sg2 @ ds2 @ dot2 @ ms2"
    "sg2 = [] \<or> sg2 = str ''-''" "ds2 \<noteq> []" "list_all is_digit ds2"
    "dot2 = [] \<or> dot2 = str ''.''" "list_all is_digit ms2"
    unfolding pattern_number_def by blast
  define ps where
    "ps = [b1, w1, sg1, ds1, dot1, ms1, w2, str '','', w3, sg2, ds2, dot2, ms2, w4, b2]"
  have i: "item_matches (One (\<lambda>c. c = 40 \<or> c = 91)) b1"
    "item_matches (One (\<lambda>c. c = 41 \<or> c = 93)) b2"
    "item_matches (One (\<lambda>c. c = 44)) (str '','')"
    "item_matches (Opt (\<lambda>c. c = 45)) sg1" "item_matches (Opt (\<lambda>c. c = 45)) sg2"
    "item_matches (Opt (\<lambda>c. c = 46)) dot1" "item_matches (Opt (\<lambda>c. c = 46)) dot2"
    using b n1(2,5) n2(2,5) by (auto simp: str_def)
  have "list_all2 item_matches interval_regex ps"
    unfolding ps_def interval_regex_def
    using i w n1(3,4,6) n2(3,4,6) by (simp del: item_matches.simps(1,2))
  then have "backtrack interval_regex (concat ps) \<noteq> None"
    by (rule backtrack_complete)
  moreover have "concat ps = t" by (simp add: ps_def t n1(1) n2(1))
  ultimately show ?thesis by (auto simp: regex_match_def)
qed

lemma regex_match_iff_pattern: "regex_match t \<noteq> None \<longleftrightarrow> pattern_interval t"
proof
  assume "regex_match t \<noteq> None"
  then obtain b1 lo hi b2 where "regex_match t = Some (b1, lo, hi, b2)" by auto
  from regex_match_SomeD[OF this] show "pattern_interval t"
    unfolding pattern_interval_def by blast
next
  assume "pattern_interval t" then show "regex_match t \<noteq> None" by (rule pattern_interval_matches)
qed

text \<open>Every string of the pattern is a string of the grammar as the specification words it.\<close>

lemma spec_numberI:
  assumes "n = sg @ ds @ dot @ ms" and "sg = [] \<or> sg = str ''+'' \<or> sg = str ''-''"
    and "ds \<noteq> []" and "list_all is_digit ds" and "dot = [] \<or> dot = str ''.''"
    and "list_all is_digit ms"
  shows "spec_number n"
  unfolding spec_number_def using assms by blast

lemma spec_intervalI:
  assumes "t = b1 @ w1 @ n1 @ w2 @ str '','' @ w3 @ n2 @ w4 @ b2"
    and "b1 = str ''('' \<or> b1 = str ''[''"
    and "list_all is_space w1" and "spec_number n1" and "list_all is_space w2"
    and "list_all is_space w3" and "spec_number n2" and "list_all is_space w4"
    and "b2 = str '')'' \<or> b2 = str '']''"
  shows "spec_interval t"
  unfolding spec_interval_def using assms by blast

lemma pattern_number_spec_number: "pattern_number n \<Longrightarrow> spec_number n"
  unfolding pattern_number_def by (auto intro: spec_numberI)

lemma pattern_interval_spec_interval:
  assumes "pattern_interval t"
  shows "spec_interval t"
proof -
  from assms obtain b1 w1 n1 w2 w3 n2 w4 b2 where
    "t = b1 @ w1 @ n1 @ w2 @ str '','' @ w3 @ n2 @ w4 @ b2"
    "b1 = str ''('' \<or> b1 = str ''[''"
    "list_all is_space w1" "pattern_number n1" "list_all is_space w2"
    "list_all is_space w3" "pattern_number n2" "list_all is_space w4"
    "b2 = str '')'' \<or> b2 = str '']''"
    unfolding pattern_interval_def by blast
  then show ?thesis
    by (intro spec_intervalI[of t b1 w1 n1 w2 w3 n2 w4 b2] pattern_number_spec_number)
qed

section \<open>Facts about parseFloat and the predicate\<close>

lemma unsigned_literal_digit:
  assumes "is_digit c"
  shows "\<exists>q. unsigned_literal (c # r) = Some (LitDecimal q)"
proof -
  from assms have "take 8 (c # r) \<noteq> str ''Infinity''"
    by (auto simp: str_def is_digit_def)
  with assms show ?thesis
    by (simp add: unsigned_literal_def Let_def)
qed

lemma parseFloat_digit:
  assumes "is_digit c"
  shows "parseFloat rt (c # r) \<noteq> NaN"
proof -
  from assms have "\<not> is_space c" "c \<noteq> 43" "c \<noteq> 45"
    by (auto simp: is_digit_def is_space_def)
  moreover obtain q where "unsigned_literal (c # r) = Some (LitDecimal q)"
    using unsigned_literal_digit[OF assms] by blast
  ultimately show ?thesis by (simp add: parseFloat_def)
qed

lemma parseFloat_minus_digit:
  assumes "is_digit c"
  shows "parseFloat rt (45 # c # r) \<noteq> NaN"
proof -
  obtain q where "unsigned_literal (c # r) = Some (LitDecimal q)"
    using unsigned_literal_digit[OF assms] by blast
  then show ?thesis by (simp add: parseFloat_def is_space_def)
qed

lemma parseFloat_pattern_number:
  assumes "pattern_number n"
  shows "parseFloat rt n \<noteq> NaN"
proof -
  from assms obtain sg ds dot ms where n: "n = sg @ ds @ dot @ ms"
    and sg: "sg = [] \<or> sg = str ''-''" and ds: "ds \<noteq> []" "list_all is_digit ds"
    unfolding pattern_number_def by blast
  from ds obtain c cs where c: "ds = c # cs" "is_digit c" by (cases ds) auto
  from sg show ?thesis
  proof
    assume "sg = []"
    with n c show ?thesis using parseFloat_digit by simp
  next
    assume "sg = str ''-''"
    with n c show ?thesis using parseFloat_minus_digit by (simp add: str_def)
  qed
qed

lemma trim_nonempty: "trim s \<noteq> [] \<Longrightarrow> s \<noteq> []"
  by (auto simp: trim_def)

lemma regex_match_nonempty: "regex_match t = Some m \<Longrightarrow> t \<noteq> []"
  by (cases m) (auto dest!: regex_match_SomeD simp: str_def)

lemma js_NaN [simp]:
  "\<not> js_gt v NaN" "\<not> js_ge v NaN" "\<not> js_lt v NaN" "\<not> js_le v NaN"
  by (cases v; simp add: js_gt_def js_ge_def js_lt_def js_le_def)+

lemma isValueInInterval_on_match:
  assumes "regex_match (trim s) = Some (b1, lo, hi, b2)"
  shows "isValueInInterval rt v (StringV s) =
           Inr ((if b1 = str ''('' then js_gt v (parseFloat rt lo) else js_ge v (parseFloat rt lo))
              \<and> (if b2 = str '')'' then js_lt v (parseFloat rt hi) else js_le v (parseFloat rt hi)))"
proof -
  from regex_match_SomeD[OF assms]
  have b: "b1 = str ''('' \<or> b1 = str ''[''" "b2 = str '')'' \<or> b2 = str '']''" by blast+
  from assms have "s \<noteq> []" by (auto dest: regex_match_nonempty trim_nonempty)
  with assms b show ?thesis
    by (auto simp: isValueInInterval_def isNaN_def Let_def)
qed

lemma isValueInInterval_no_match:
  assumes "regex_match (trim s) = None"
  shows "isValueInInterval rt v (StringV s) = Inr False"
  using assms by (simp add: isValueInInterval_def)

lemma isValueInInterval_non_string:
  "isValueInInterval rt v Undefined = Inr False"
  "isValueInInterval rt v (NumberV n) = Inr False"
  by (simp_all add: isValueInInterval_def str_def)

lemma isValueInInterval_total: "\<exists>b. isValueInInterval rt v x = Inr b"
proof (cases x)
  case (StringV s)
  then show ?thesis
    by (cases "regex_match (trim s)")
       (auto simp: isValueInInterval_no_match isValueInInterval_on_match)
qed (auto simp: isValueInInterval_non_string)

section \<open>Evaluation on concrete inputs\<close>

lemma exact_runtime_exact: "exact_on_integers exact_runtime"
  by (simp add: exact_on_integers_def exact_runtime_def)

lemma exact_numeral:
  "exact_on_integers rt \<Longrightarrow> numeral k \<le> (9007199254740992::nat) \<Longrightarrow>
     number_value rt (numeral k) = Fin (numeral k)"
  unfolding exact_on_integers_def by (metis of_nat_numeral)

lemma exact_zero: "exact_on_integers rt \<Longrightarrow> number_value rt 0 = Fin 0"
  unfolding exact_on_integers_def by (metis of_nat_0 zero_le)

lemma exact_one: "exact_on_integers rt \<Longrightarrow> number_value rt 1 = Fin 1"
  unfolding exact_on_integers_def by (metis of_nat_1 one_le_numeral)

lemmas eval_defs =
  isValueInInterval_def trim_def regex_match_def interval_regex_def str_def is_space_def
  is_digit_def isNaN_def parseFloat_def unsigned_literal_def digits_value_def
  exponent_part_def scale_def js_lt_def js_gt_def js_le_def js_ge_def Let_def
  exact_numeral exact_zero exact_one

text \<open>The binary64 value of \<open>2^53 + 1\<close> is \<open>2^53\<close>: a tie, resolved to the even significand.\<close>

lemma floor_half: "\<lfloor>(9007199254740993::rat) / 2\<rfloor> = 4503599627370496"
  by (simp add: floor_eq_iff)

lemma binary64_examples:
  "binary64_value 9007199254740993 = Fin 9007199254740992"
  "binary64_value 9007199254740992 = Fin 9007199254740992"
  by (simp_all add: binary64_value_def round_half_even_def scale2_def floor_half)

lemma passes_grammar_check_string:
  "passes_grammar_check (StringV s) \<longleftrightarrow> regex_match (trim s) \<noteq> None"
proof -
  have "regex_match (trim s) \<noteq> None \<Longrightarrow> s \<noteq> []"
    by (auto dest: regex_match_nonempty trim_nonempty)
  then show ?thesis by (auto simp: passes_grammar_check_def)
qed

text \<open>
  Two edges of the grammar: the pattern knows no plus sign, though a number with a plus
  sign is a signed decimal number, and a dot needs no digits after it.
\<close>

lemma spec_interval_plus: "spec_interval (str ''[+5, 10]'')"
proof -
  have n1: "spec_number (str ''+5'')"
    by (rule spec_numberI[of _ "str ''+''" "str ''5''" "[]" "[]"])
       (simp_all add: str_def is_digit_def)
  have n2: "spec_number (str ''10'')"
    by (rule spec_numberI[of _ "[]" "str ''10''" "[]" "[]"])
       (simp_all add: str_def is_digit_def)
  show ?thesis
    by (rule spec_intervalI[of _ "str ''[''" "[]" "str ''+5''" "[]" "str '' ''" "str ''10''"
          "[]" "str '']''"])
       (use n1 n2 in \<open>simp_all add: str_def is_space_def\<close>)
qed

lemma plus_sign_not_accepted:
  "\<not> passes_grammar_check (StringV (str ''[+5, 10]''))"
  by (simp add: passes_grammar_check_def eval_defs)

lemma trailing_dot_accepted:
  "passes_grammar_check (StringV (str ''[5., 10]''))"
  by (simp add: passes_grammar_check_def eval_defs)

lemma isValueInInterval_rejected:
  assumes "\<not> passes_grammar_check x"
  shows "isValueInInterval rt v x = Inr False"
proof (cases x)
  case (StringV s)
  with assms have "regex_match (trim s) = None"
    using passes_grammar_check_string[of s] by blast
  with StringV show ?thesis by (simp add: isValueInInterval_no_match)
qed (auto simp: isValueInInterval_non_string)

lemma inverted_bounds:
  assumes "js_gt lo hi"
  shows "\<not> ((js_gt v lo \<or> js_ge v lo) \<and> (js_lt v hi \<or> js_le v hi))"
proof (cases v)
  case NaN
  then show ?thesis by (simp add: js_gt_def js_ge_def js_lt_def js_le_def)
next
  case (Num a)
  from assms obtain l h where lh: "lo = Num l" "hi = Num h" "fless h l"
    by (cases lo; cases hi) (auto simp: js_gt_def)
  show ?thesis
    using lh(3) unfolding Num lh(1,2)
    by (cases a; cases l; cases h) (auto simp: js_gt_def js_ge_def js_lt_def js_le_def)
qed

section \<open>Facts about the row matcher\<close>

lemma row_callback_all_three:
  "row_callback rt a b c r = Inr (all_three rt a b c r)"
proof -
  obtain x y z where
    "isValueInInterval rt a (StringV (bin_field rt r (str ''s5_now_bin'') (str ''s5 now bin''))) = Inr x"
    "isValueInInterval rt b (StringV (bin_field rt r (str ''s10_now_bin'') (str ''s10 now bin''))) = Inr y"
    "isValueInInterval rt c (StringV (bin_field rt r (str ''s20_now_bin'') (str ''s20 now bin''))) = Inr z"
    using isValueInInterval_total by meson
  then show ?thesis
    by (simp add: row_callback_def all_three_def and_also_def Let_def bin_field_def)
qed

lemma array_find_none:
  "(\<forall>x\<in>set xs. p x = Inr False) \<Longrightarrow> array_find p xs = Inr None"
  by (induction xs) auto

lemma array_find_first:
  "i < length xs \<Longrightarrow> p (xs ! i) = Inr True \<Longrightarrow> (\<forall>j<i. p (xs ! j) = Inr False) \<Longrightarrow>
     array_find p xs = Inr (Some (xs ! i))"
proof (induction xs arbitrary: i)
  case Nil
  then show ?case by simp
next
  case (Cons x xs)
  show ?case
  proof (cases i)
    case 0
    with Cons.prems show ?thesis by simp
  next
    case (Suc k)
    with Cons.prems have "p x = Inr False" by auto
    moreover from Suc Cons.prems have "array_find p xs = Inr (Some (xs ! k))"
      by (intro Cons.IH) auto
    ultimately show ?thesis using Suc by simp
  qed
qed

lemma array_find_none_iff:
  assumes "\<And>x. \<exists>b. p x = Inr b"
  shows "array_find p xs = Inr None \<longleftrightarrow> (\<forall>i<length xs. p (xs ! i) = Inr False)"
proof (induction xs)
  case Nil
  then show ?case by simp
next
  case (Cons x xs)
  obtain b where b: "p x = Inr b" using assms by blast
  show ?case
  proof (cases b)
    case True
    with b show ?thesis by auto
  next
    case False
    with b Cons show ?thesis by (auto simp: nth_Cons split: nat.splits)
  qed
qed

lemma bin_field_truthy:
  "bin_field rt r u s =
     (if truthy (get_prop r u) then to_string rt (get_prop r u)
      else if truthy (get_prop r s) then to_string rt (get_prop r s)
      else [])"
  by (simp add: bin_field_def js_or_def)

lemma bin_field_renamed:
  assumes "r u = None" and "u \<noteq> s"
  shows "bin_field rt (rename_column r s u) u s = bin_field rt r u s"
  using assms by (simp add: bin_field_truthy rename_column_def get_prop_def)

lemma bin_field_other:
  assumes "u \<noteq> old" "u \<noteq> new" "s \<noteq> old" "s \<noteq> new"
  shows "bin_field rt (rename_column r old new) u s = bin_field rt r u s"
  using assms by (simp add: bin_field_def rename_column_def get_prop_def)

lemma row_callback_bins:
  "row_callback rt a b c r =
     and_also
       (and_also
          (isValueInInterval rt a (StringV (bin_field rt r (str ''s5_now_bin'') (str ''s5 now bin''))))
          (isValueInInterval rt b (StringV (bin_field rt r (str ''s10_now_bin'') (str ''s10 now bin'')))))
       (isValueInInterval rt c (StringV (bin_field rt r (str ''s20_now_bin'') (str ''s20 now bin''))))"
  by (simp add: row_callback_def bin_field_def Let_def)

lemma key_distinct:
  "str ''s5_now_bin'' \<noteq> str ''s5 now bin''"
  "str ''s10_now_bin'' \<noteq> str ''s10 now bin''"
  "str ''s20_now_bin'' \<noteq> str ''s20 now bin''"
  "str ''s5_now_bin'' \<noteq> str ''s10_now_bin''" "str ''s5_now_bin'' \<noteq> str ''s10 now bin''"
  "str ''s5_now_bin'' \<noteq> str ''s20_now_bin''" "str ''s5_now_bin'' \<noteq> str ''s20 now bin''"
  "str ''s5 now bin'' \<noteq> str ''s10_now_bin''" "str ''s5 now bin'' \<noteq> str ''s10 now bin''"
  "str ''s5 now bin'' \<noteq> str ''s20_now_bin''" "str ''s5 now bin'' \<noteq> str ''s20 now bin''"
  "str ''s10_now_bin'' \<noteq> str ''s20_now_bin''" "str ''s10_now_bin'' \<noteq> str ''s20 now bin''"
  "str ''s10 now bin'' \<noteq> str ''s20_now_bin''" "str ''s10 now bin'' \<noteq> str ''s20 now bin''"
  by (simp_all add: str_def)

lemma parseFloat_empty: "parseFloat rt [] = NaN"
  by (simp add: parseFloat_def unsigned_literal_def str_def)

lemma search_total: "\<exists>res. search rt rows a b c = Inr res"
proof -
  have "\<exists>y. array_find (row_callback rt a b c) rows = Inr y"
    by (induction rows) (auto simp: row_callback_all_three)
  then show ?thesis by (auto simp: search_def)
qed

lemma findMatch_refused:
  assumes "fails_to_parse rt (inputs st)"
  shows "findMatch rt st =
           Inr (if some_empty (inputs st) then st
                else st\<lparr>alerts := alerts st @ [invalid_number_alert]\<rparr>)"
  using assms by (auto simp: findMatch_def fails_to_parse_def some_empty_def Let_def)

lemma findMatch_runs:
  assumes "\<not> fails_to_parse rt (inputs st)"
    and "search rt (data st) (parseFloat rt (s5 (inputs st))) (parseFloat rt (s10 (inputs st)))
           (parseFloat rt (s20 (inputs st))) = Inr res"
  shows "findMatch rt st = Inr (st\<lparr>matchResult := Some res\<rparr>)"
proof -
  from assms(1) have "s5 (inputs st) \<noteq> []" "s10 (inputs st) \<noteq> []" "s20 (inputs st) \<noteq> []"
    by (auto simp: fails_to_parse_def isNaN_def parseFloat_empty)
  with assms show ?thesis
    by (simp add: findMatch_def fails_to_parse_def Let_def)
qed

section \<open>The example dataset of the specification\<close>

lemma example_bins:
  "bin_field rt example_row1 (str ''s5_now_bin'') (str ''s5 now bin'') = str ''(-50,-45]''"
  "bin_field rt example_row1 (str ''s10_now_bin'') (str ''s10 now bin'') = str ''[0,5)''"
  "bin_field rt example_row1 (str ''s20_now_bin'') (str ''s20 now bin'') = str ''(10,20]''"
  "bin_field rt example_row2 (str ''s5_now_bin'') (str ''s5 now bin'') = str ''[-45,-40)''"
  "bin_field rt example_row2 (str ''s10_now_bin'') (str ''s10 now bin'') = str ''[0,5)''"
  "bin_field rt example_row2 (str ''s20_now_bin'') (str ''s20 now bin'') = str ''(10,20]''"
  by (simp_all add: bin_field_def example_row1_def example_row2_def get_prop_def js_or_def str_def)

lemma example_tests:
  assumes "exact_on_integers rt"
  shows "isValueInInterval rt (Num (Fin (- 46))) (StringV (str ''(-50,-45]'')) = Inr True"
    and "isValueInInterval rt (Num (Fin (- 44))) (StringV (str ''(-50,-45]'')) = Inr False"
    and "isValueInInterval rt (Num (Fin (- 40))) (StringV (str ''(-50,-45]'')) = Inr False"
    and "isValueInInterval rt (Num (Fin (- 44))) (StringV (str ''[-45,-40)'')) = Inr True"
    and "isValueInInterval rt (Num (Fin (- 40))) (StringV (str ''[-45,-40)'')) = Inr False"
    and "isValueInInterval rt (Num (Fin 2)) (StringV (str ''[0,5)'')) = Inr True"
    and "isValueInInterval rt (Num (Fin 15)) (StringV (str ''(10,20]'')) = Inr True"
  using assms by (simp_all add: eval_defs)

lemma example_all_three:
  assumes "exact_on_integers rt"
  shows "all_three rt (Num (Fin (- 46))) (Num (Fin 2)) (Num (Fin 15)) example_row1"
    and "\<not> all_three rt (Num (Fin (- 44))) (Num (Fin 2)) (Num (Fin 15)) example_row1"
    and "all_three rt (Num (Fin (- 44))) (Num (Fin 2)) (Num (Fin 15)) example_row2"
    and "\<not> all_three rt (Num (Fin (- 40))) (Num (Fin 2)) (Num (Fin 15)) example_row1"
    and "\<not> all_three rt (Num (Fin (- 40))) (Num (Fin 2)) (Num (Fin 15)) example_row2"
  by (simp_all add: all_three_def example_bins example_tests[OF assms])

lemma example_inputs:
  assumes "exact_on_integers rt"
  shows "parseFloat rt (str ''-46'') = Num (Fin (- 46))"
    and "parseFloat rt (str ''-44'') = Num (Fin (- 44))"
    and "parseFloat rt (str ''-40'') = Num (Fin (- 40))"
    and "parseFloat rt (str ''2'') = Num (Fin 2)"
    and "parseFloat rt (str ''15'') = Num (Fin 15)"
  using assms by (simp_all add: eval_defs)

lemma example_search:
  assumes "exact_on_integers rt"
  shows "search rt [example_row1, example_row2] (Num (Fin (- 46))) (Num (Fin 2)) (Num (Fin 15))
           = Inr \<lparr>found = True, row = Some example_row1, error = None\<rparr>"
    and "search rt [example_row1, example_row2] (Num (Fin (- 44))) (Num (Fin 2)) (Num (Fin 15))
           = Inr \<lparr>found = True, row = Some example_row2, error = None\<rparr>"
    and "search rt [example_row1, example_row2] (Num (Fin (- 40))) (Num (Fin 2)) (Num (Fin 15))
           = Inr \<lparr>found = False, row = None, error = None\<rparr>"
  by (simp_all add: search_def row_callback_all_three example_all_three[OF assms])

section \<open>The claims\<close>

text \<open>
  C1. For every value and every string that the pattern accepts, the predicate returns
  true exactly when both bound tests pass: the lower test is \<open>v > lo\<close> after an opening
  parenthesis and \<open>v >= lo\<close> after an opening square bracket, the upper test is \<open>v < hi\<close>
  before a closing parenthesis and \<open>v <= hi\<close> before a closing square bracket, where \<open>lo\<close>
  and \<open>hi\<close> are the parsed bounds. In particular 5 is not in \<open>(5, 10]\<close> and is in
  \<open>[5, 10]\<close>.
\<close>

theorem isValueInInterval_bound_tests:
  "(regex_match (trim s) = Some (b1, lo, hi, b2) \<longrightarrow>
      (b1 = str ''('' \<or> b1 = str ''['') \<and> (b2 = str '')'' \<or> b2 = str '']'') \<and>
      isValueInInterval rt v (StringV s) =
        Inr ((if b1 = str ''('' then js_gt v (parseFloat rt lo) else js_ge v (parseFloat rt lo))
           \<and> (if b2 = str '')'' then js_lt v (parseFloat rt hi) else js_le v (parseFloat rt hi))))
   \<and> (exact_on_integers rt \<longrightarrow>
        isValueInInterval rt (Num (Fin 5)) (StringV (str ''(5, 10]'')) = Inr False
      \<and> isValueInInterval rt (Num (Fin 5)) (StringV (str ''[5, 10]'')) = Inr True)"
proof (intro conjI impI)
  assume m: "regex_match (trim s) = Some (b1, lo, hi, b2)"
  from regex_match_SomeD[OF m]
  show "b1 = str ''('' \<or> b1 = str ''[''" "b2 = str '')'' \<or> b2 = str '']''" by blast+
  from m show "isValueInInterval rt v (StringV s) =
        Inr ((if b1 = str ''('' then js_gt v (parseFloat rt lo) else js_ge v (parseFloat rt lo))
           \<and> (if b2 = str '')'' then js_lt v (parseFloat rt hi) else js_le v (parseFloat rt hi)))"
    by (rule isValueInInterval_on_match)
next
  assume e: "exact_on_integers rt"
  then show "isValueInInterval rt (Num (Fin 5)) (StringV (str ''(5, 10]'')) = Inr False"
    by (simp add: eval_defs)
  from e show "isValueInInterval rt (Num (Fin 5)) (StringV (str ''[5, 10]'')) = Inr True"
    by (simp add: eval_defs)
qed

theorem isValueInInterval_bound_tests_witness:
  "regex_match (trim (str '' (5, 10] '')) = Some (str ''('', str ''5'', str ''10'', str '']'')
   \<and> exact_on_integers exact_runtime
   \<and> isValueInInterval exact_runtime (Num (Fin 7)) (StringV (str '' (5, 10] '')) = Inr True
   \<and> isValueInInterval exact_runtime (Num (Fin 5)) (StringV (str ''(5, 10]'')) = Inr False"
proof -
  have m: "regex_match (trim (str '' (5, 10] '')) = Some (str ''('', str ''5'', str ''10'', str '']'')"
    by (simp add: eval_defs)
  have p: "parseFloat exact_runtime (str ''5'') = Num (Fin 5)"
    "parseFloat exact_runtime (str ''10'') = Num (Fin 10)"
    by (simp_all add: eval_defs exact_runtime_def)
  from isValueInInterval_bound_tests[of "str '' (5, 10] ''" "str ''(''" "str ''5''" "str ''10''" "str '']''" exact_runtime
      "Num (Fin 7)"] m exact_runtime_exact
  show ?thesis by (simp add: p js_gt_def js_le_def) (simp add: str_def)
qed

text \<open>
  C2. For every list of rows and every three numbers, the search reports not-found exactly
  when no row passes all three calls of the predicate, and otherwise returns the row of the
  least index that passes all three: an earlier row that passes wins over every later one,
  and the rows after it have no influence on the result.
\<close>

theorem search_first_match:
  "(search rt rows a b c = Inr \<lparr>found = False, row = None, error = None\<rparr>
      \<longleftrightarrow> (\<forall>i<length rows. \<not> all_three rt a b c (rows ! i)))
   \<and> (\<forall>i<length rows.
         all_three rt a b c (rows ! i) \<and> (\<forall>j<i. \<not> all_three rt a b c (rows ! j)) \<longrightarrow>
         search rt rows a b c = Inr \<lparr>found = True, row = Some (rows ! i), error = None\<rparr>
         \<and> (\<forall>rest. search rt (take (Suc i) rows @ rest) a b c
               = Inr \<lparr>found = True, row = Some (rows ! i), error = None\<rparr>))"
proof (intro conjI allI impI)
  have tot: "\<And>x. \<exists>y. row_callback rt a b c x = Inr y"
    by (simp add: row_callback_all_three)
  have "search rt rows a b c = Inr \<lparr>found = False, row = None, error = None\<rparr>
          \<longleftrightarrow> array_find (row_callback rt a b c) rows = Inr None"
    by (auto simp: search_def split: sum.splits option.splits)
  also have "\<dots> \<longleftrightarrow> (\<forall>i<length rows. row_callback rt a b c (rows ! i) = Inr False)"
    using tot by (rule array_find_none_iff)
  finally show "search rt rows a b c = Inr \<lparr>found = False, row = None, error = None\<rparr>
      \<longleftrightarrow> (\<forall>i<length rows. \<not> all_three rt a b c (rows ! i))"
    by (simp add: row_callback_all_three)
next
  fix i
  assume i: "i < length rows"
    and h: "all_three rt a b c (rows ! i) \<and> (\<forall>j<i. \<not> all_three rt a b c (rows ! j))"
  then have "array_find (row_callback rt a b c) rows = Inr (Some (rows ! i))"
    by (intro array_find_first) (simp_all add: row_callback_all_three)
  then show "search rt rows a b c = Inr \<lparr>found = True, row = Some (rows ! i), error = None\<rparr>"
    by (simp add: search_def)
  fix rest
  let ?xs = "take (Suc i) rows @ rest"
  have nth: "\<And>j. j \<le> i \<Longrightarrow> ?xs ! j = rows ! j"
    using i by (simp add: nth_append)
  have "array_find (row_callback rt a b c) ?xs = Inr (Some (?xs ! i))"
  proof (rule array_find_first)
    show "i < length ?xs" using i by simp
    show "row_callback rt a b c (?xs ! i) = Inr True"
      using h by (simp add: nth row_callback_all_three)
    show "\<forall>j<i. row_callback rt a b c (?xs ! j) = Inr False"
      using h by (simp add: nth row_callback_all_three)
  qed
  then show "search rt ?xs a b c = Inr \<lparr>found = True, row = Some (rows ! i), error = None\<rparr>"
    by (simp add: search_def nth)
qed

theorem search_first_match_witness:
  "\<not> all_three exact_runtime (Num (Fin (- 44))) (Num (Fin 2)) (Num (Fin 15)) example_row1
   \<and> all_three exact_runtime (Num (Fin (- 44))) (Num (Fin 2)) (Num (Fin 15)) example_row2
   \<and> search exact_runtime [example_row1, example_row2]
         (Num (Fin (- 44))) (Num (Fin 2)) (Num (Fin 15))
       = Inr \<lparr>found = True, row = Some example_row2, error = None\<rparr>"
proof -
  note e = example_all_three[OF exact_runtime_exact]
  have "(1::nat) < length [example_row1, example_row2]" by simp
  moreover have "all_three exact_runtime (Num (Fin (- 44))) (Num (Fin 2)) (Num (Fin 15))
        ([example_row1, example_row2] ! 1)
      \<and> (\<forall>j<1. \<not> all_three exact_runtime (Num (Fin (- 44))) (Num (Fin 2)) (Num (Fin 15))
            ([example_row1, example_row2] ! j))"
    using e by simp
  ultimately have "search exact_runtime [example_row1, example_row2]
         (Num (Fin (- 44))) (Num (Fin 2)) (Num (Fin 15))
       = Inr \<lparr>found = True, row = Some ([example_row1, example_row2] ! 1), error = None\<rparr>"
    using search_first_match[of exact_runtime "[example_row1, example_row2]"
        "Num (Fin (- 44))" "Num (Fin 2)" "Num (Fin 15)"]
    by blast
  with e show ?thesis by simp
qed

text \<open>
  A plus sign is a sign, so \<open>[+5, 10]\<close> is a bracket, a signed decimal number, a comma,
  white space, a second number and a bracket; the pattern rejects it, and the predicate
  returns false on it for the value 7.
\<close>

theorem isValueInInterval_accepts_iff_pattern_counterexample:
  "spec_interval (trim (str ''[+5, 10]''))
   \<and> \<not> passes_grammar_check (StringV (str ''[+5, 10]''))
   \<and> regex_match (trim (str ''[+5, 10]'')) = None
   \<and> isValueInInterval exact_runtime (Num (Fin 7)) (StringV (str ''[+5, 10]'')) = Inr False"
proof -
  have t: "trim (str ''[+5, 10]'') = str ''[+5, 10]''"
    by (simp add: trim_def str_def is_space_def)
  have m: "regex_match (str ''[+5, 10]'') = None"
    by (simp add: eval_defs)
  show ?thesis
    using spec_interval_plus plus_sign_not_accepted
    by (simp add: t m isValueInInterval_no_match)
qed

text \<open>
  C3, amended. For every string, the predicate accepts it, going on to the bound tests
  instead of returning false at the grammar check, exactly when its trimmed text is one of
  \<open>(\<close> or \<open>[\<close>, optional white space, a decimal number, optional white space, a comma,
  optional white space, a second decimal number, optional white space and one of \<open>)\<close> or
  \<open>]\<close>, with nothing else; a decimal number is an optional minus sign (a plus sign is not
  accepted), one or more digits, an optional dot and zero or more digits. On such a string
  the result is that of the two bound tests on the captured brackets and bounds, for every
  value; on every other string the result is false, for every value.
\<close>

theorem isValueInInterval_accepts_iff_pattern:
  "(passes_grammar_check (StringV s) \<longleftrightarrow> pattern_interval (trim s))
   \<and> (pattern_interval (trim s) \<longrightarrow>
        (\<exists>b1 lo hi b2. regex_match (trim s) = Some (b1, lo, hi, b2)
           \<and> (\<forall>v. isValueInInterval rt v (StringV s) =
                 Inr ((if b1 = str ''('' then js_gt v (parseFloat rt lo)
                       else js_ge v (parseFloat rt lo))
                    \<and> (if b2 = str '')'' then js_lt v (parseFloat rt hi)
                       else js_le v (parseFloat rt hi))))))
   \<and> (\<not> pattern_interval (trim s) \<longrightarrow> (\<forall>v. isValueInInterval rt v (StringV s) = Inr False))"
proof (intro conjI impI allI)
  show "passes_grammar_check (StringV s) \<longleftrightarrow> pattern_interval (trim s)"
    using passes_grammar_check_string[of s] regex_match_iff_pattern[of "trim s"] by blast
next
  assume "pattern_interval (trim s)"
  then have "regex_match (trim s) \<noteq> None" by (simp only: regex_match_iff_pattern)
  then obtain b1 lo hi b2 where m: "regex_match (trim s) = Some (b1, lo, hi, b2)" by auto
  show "\<exists>b1 lo hi b2. regex_match (trim s) = Some (b1, lo, hi, b2)
           \<and> (\<forall>v. isValueInInterval rt v (StringV s) =
                 Inr ((if b1 = str ''('' then js_gt v (parseFloat rt lo)
                       else js_ge v (parseFloat rt lo))
                    \<and> (if b2 = str '')'' then js_lt v (parseFloat rt hi)
                       else js_le v (parseFloat rt hi))))"
    using m isValueInInterval_on_match[OF m] by blast
next
  fix v
  assume "\<not> pattern_interval (trim s)"
  then have "regex_match (trim s) = None"
    using regex_match_iff_pattern[of "trim s"] by blast
  then show "isValueInInterval rt v (StringV s) = Inr False"
    by (rule isValueInInterval_no_match)
qed

theorem isValueInInterval_accepts_iff_pattern_witness:
  "pattern_interval (trim (str '' (5, 10] ''))
   \<and> isValueInInterval exact_runtime (Num (Fin 7)) (StringV (str '' (5, 10] '')) = Inr True
   \<and> \<not> pattern_interval (trim (str ''5-10''))
   \<and> isValueInInterval exact_runtime (Num (Fin 7)) (StringV (str ''5-10'')) = Inr False"
proof -
  have a: "passes_grammar_check (StringV (str '' (5, 10] ''))"
    by (simp add: passes_grammar_check_def eval_defs)
  have b: "\<not> passes_grammar_check (StringV (str ''5-10''))"
    by (simp add: passes_grammar_check_def eval_defs)
  have m: "regex_match (trim (str '' (5, 10] '')) = Some (str ''('', str ''5'', str ''10'', str '']'')"
    by (simp add: eval_defs)
  have p: "parseFloat exact_runtime (str ''5'') = Num (Fin 5)"
    "parseFloat exact_runtime (str ''10'') = Num (Fin 10)"
    by (simp_all add: eval_defs exact_runtime_def)
  from isValueInInterval_accepts_iff_pattern[of "str '' (5, 10] ''" exact_runtime] a
  have 1: "pattern_interval (trim (str '' (5, 10] ''))"
    and 2: "isValueInInterval exact_runtime (Num (Fin 7)) (StringV (str '' (5, 10] '')) = Inr True"
    by (simp_all add: m p js_gt_def js_le_def) (simp_all add: str_def)
  from isValueInInterval_accepts_iff_pattern[of "str ''5-10''" exact_runtime] b
  have 3: "\<not> pattern_interval (trim (str ''5-10''))"
    and 4: "isValueInInterval exact_runtime (Num (Fin 7)) (StringV (str ''5-10'')) = Inr False"
    by simp_all
  from 1 2 3 4 show ?thesis by simp
qed

text \<open>
  C4. The predicate never throws, whatever its second argument is. On every argument that
  fails the grammar check (a string that the pattern rejects, the empty string, a value
  that is not a string) it returns false, for every value; so it does on \<open>5-10\<close>, on the
  empty string and on \<open>[5,10\<close>.
\<close>

theorem isValueInInterval_malformed_false:
  "(\<exists>b. isValueInInterval rt v x = Inr b)
   \<and> (\<not> passes_grammar_check x \<longrightarrow> isValueInInterval rt v x = Inr False)
   \<and> isValueInInterval rt v (StringV []) = Inr False
   \<and> isValueInInterval rt v Undefined = Inr False
   \<and> isValueInInterval rt v (NumberV n) = Inr False
   \<and> isValueInInterval rt (Num (Fin 5)) (StringV (str ''5-10'')) = Inr False
   \<and> isValueInInterval rt (Num (Fin 5)) (StringV (str '''')) = Inr False
   \<and> isValueInInterval rt (Num (Fin 5)) (StringV (str ''[5,10'')) = Inr False"
proof -
  have "regex_match (trim (str ''5-10'')) = None" "regex_match (trim (str ''[5,10'')) = None"
    by (simp_all add: eval_defs)
  then show ?thesis
    using isValueInInterval_total[of rt v x] isValueInInterval_rejected[of x rt v]
    by (simp add: isValueInInterval_no_match isValueInInterval_non_string)
       (simp add: isValueInInterval_def str_def)
qed

theorem isValueInInterval_malformed_false_witness:
  "\<not> passes_grammar_check (StringV (str ''(5; 10)''))
   \<and> isValueInInterval exact_runtime (Num (Fin 7)) (StringV (str ''(5; 10)'')) = Inr False"
proof -
  have n: "\<not> passes_grammar_check (StringV (str ''(5; 10)''))"
    by (simp add: passes_grammar_check_def eval_defs)
  with isValueInInterval_malformed_false[of exact_runtime "Num (Fin 7)" "StringV (str ''(5; 10)'')"] show ?thesis by simp
qed

text \<open>
  The resolution of a bin column does not go by the presence of the key. A row that has
  the underscore column with an empty string and the space column with an interval is
  resolved to the interval and is matched, where the presence rule gives the empty string,
  on which the predicate is false; a row whose underscore column holds the number 0 is
  resolved to the empty string although the key is present, where the presence rule gives
  the text \<open>0\<close>.
\<close>

theorem bin_field_resolution_counterexample:
  "bin_field exact_runtime falsy_row (str ''s5_now_bin'') (str ''s5 now bin'')
     \<noteq> spec_bin_field exact_runtime falsy_row (str ''s5_now_bin'') (str ''s5 now bin'')
   \<and> bin_field exact_runtime falsy_row (str ''s5_now_bin'') (str ''s5 now bin'')
       = str ''(-50,-45]''
   \<and> spec_bin_field exact_runtime falsy_row (str ''s5_now_bin'') (str ''s5 now bin'') = []
   \<and> row_callback exact_runtime (Num (Fin (- 46))) (Num (Fin 2)) (Num (Fin 15)) falsy_row
       = Inr True
   \<and> isValueInInterval exact_runtime (Num (Fin (- 46)))
         (StringV (spec_bin_field exact_runtime falsy_row (str ''s5_now_bin'') (str ''s5 now bin'')))
       = Inr False
   \<and> zero_row (str ''s5_now_bin'') = Some (NumberV (Num (Fin 0)))
   \<and> bin_field exact_runtime zero_row (str ''s5_now_bin'') (str ''s5 now bin'') = []
   \<and> spec_bin_field exact_runtime zero_row (str ''s5_now_bin'') (str ''s5 now bin'') = str ''0''"
proof -
  have f: "bin_field exact_runtime falsy_row (str ''s5_now_bin'') (str ''s5 now bin'')
             = str ''(-50,-45]''"
    "bin_field exact_runtime falsy_row (str ''s10_now_bin'') (str ''s10 now bin'') = str ''[0,5)''"
    "bin_field exact_runtime falsy_row (str ''s20_now_bin'') (str ''s20 now bin'') = str ''(10,20]''"
    by (simp_all add: bin_field_truthy falsy_row_def get_prop_def str_def)
  have s: "spec_bin_field exact_runtime falsy_row (str ''s5_now_bin'') (str ''s5 now bin'') = []"
    by (simp add: spec_bin_field_def falsy_row_def str_def)
  have z: "zero_row (str ''s5_now_bin'') = Some (NumberV (Num (Fin 0)))"
    "bin_field exact_runtime zero_row (str ''s5_now_bin'') (str ''s5 now bin'') = []"
    "spec_bin_field exact_runtime zero_row (str ''s5_now_bin'') (str ''s5 now bin'') = str ''0''"
    by (simp_all add: bin_field_truthy spec_bin_field_def zero_row_def get_prop_def str_def)
  have c: "row_callback exact_runtime (Num (Fin (- 46))) (Num (Fin 2)) (Num (Fin 15)) falsy_row
             = Inr True"
    by (simp add: row_callback_all_three all_three_def f example_tests[OF exact_runtime_exact])
  have e: "isValueInInterval exact_runtime (Num (Fin (- 46))) (StringV []) = Inr False"
    by (simp add: isValueInInterval_def)
  have n: "str ''(-50,-45]'' \<noteq> []" by (simp add: str_def)
  show ?thesis by (simp add: f s z c e n)
qed

text \<open>
  C5, amended. For every row the matcher resolves each of the three bin columns to the
  text of the value under the underscore key when that value is truthy, otherwise to the
  text of the value under the space key when that value is truthy, otherwise to the empty
  string; a missing key, an empty string, 0 and NaN are not truthy. The three texts are
  what the predicate is called on. Consequently a row that spells a bin column with
  spaces, and has no column of the underscore name, is matched as the same row with that
  column renamed to the underscore spelling.
\<close>

theorem bin_field_resolution:
  "bin_field rt r u s =
     (if truthy (get_prop r u) then to_string rt (get_prop r u)
      else if truthy (get_prop r s) then to_string rt (get_prop r s)
      else [])
   \<and> row_callback rt a b c r =
       and_also
         (and_also
            (isValueInInterval rt a (StringV (bin_field rt r (str ''s5_now_bin'') (str ''s5 now bin''))))
            (isValueInInterval rt b (StringV (bin_field rt r (str ''s10_now_bin'') (str ''s10 now bin'')))))
         (isValueInInterval rt c (StringV (bin_field rt r (str ''s20_now_bin'') (str ''s20 now bin''))))
   \<and> (r (str ''s5_now_bin'') = None \<longrightarrow>
        row_callback rt a b c (rename_column r (str ''s5 now bin'') (str ''s5_now_bin''))
          = row_callback rt a b c r)
   \<and> (r (str ''s10_now_bin'') = None \<longrightarrow>
        row_callback rt a b c (rename_column r (str ''s10 now bin'') (str ''s10_now_bin''))
          = row_callback rt a b c r)
   \<and> (r (str ''s20_now_bin'') = None \<longrightarrow>
        row_callback rt a b c (rename_column r (str ''s20 now bin'') (str ''s20_now_bin''))
          = row_callback rt a b c r)"
proof (intro conjI impI)
  show "bin_field rt r u s =
     (if truthy (get_prop r u) then to_string rt (get_prop r u)
      else if truthy (get_prop r s) then to_string rt (get_prop r s)
      else [])"
    by (rule bin_field_truthy)
  show "row_callback rt a b c r =
       and_also
         (and_also
            (isValueInInterval rt a (StringV (bin_field rt r (str ''s5_now_bin'') (str ''s5 now bin''))))
            (isValueInInterval rt b (StringV (bin_field rt r (str ''s10_now_bin'') (str ''s10 now bin'')))))
         (isValueInInterval rt c (StringV (bin_field rt r (str ''s20_now_bin'') (str ''s20 now bin''))))"
    by (rule row_callback_bins)
next
  assume "r (str ''s5_now_bin'') = None"
  then show "row_callback rt a b c (rename_column r (str ''s5 now bin'') (str ''s5_now_bin''))
          = row_callback rt a b c r"
    by (simp add: row_callback_bins bin_field_renamed bin_field_other key_distinct
        key_distinct[symmetric])
next
  assume "r (str ''s10_now_bin'') = None"
  then show "row_callback rt a b c (rename_column r (str ''s10 now bin'') (str ''s10_now_bin''))
          = row_callback rt a b c r"
    by (simp add: row_callback_bins bin_field_renamed bin_field_other key_distinct
        key_distinct[symmetric])
next
  assume "r (str ''s20_now_bin'') = None"
  then show "row_callback rt a b c (rename_column r (str ''s20 now bin'') (str ''s20_now_bin''))
          = row_callback rt a b c r"
    by (simp add: row_callback_bins bin_field_renamed bin_field_other key_distinct
        key_distinct[symmetric])
qed

theorem bin_field_resolution_witness:
  "space_row (str ''s5_now_bin'') = None \<and> space_row (str ''s10_now_bin'') = None
   \<and> space_row (str ''s20_now_bin'') = None
   \<and> row_callback exact_runtime (Num (Fin (- 46))) (Num (Fin 2)) (Num (Fin 15))
        (rename_column space_row (str ''s5 now bin'') (str ''s5_now_bin''))
      = row_callback exact_runtime (Num (Fin (- 46))) (Num (Fin 2)) (Num (Fin 15)) space_row
   \<and> row_callback exact_runtime (Num (Fin (- 46))) (Num (Fin 2)) (Num (Fin 15))
        (rename_column space_row (str ''s10 now bin'') (str ''s10_now_bin''))
      = row_callback exact_runtime (Num (Fin (- 46))) (Num (Fin 2)) (Num (Fin 15)) space_row
   \<and> row_callback exact_runtime (Num (Fin (- 46))) (Num (Fin 2)) (Num (Fin 15))
        (rename_column space_row (str ''s20 now bin'') (str ''s20_now_bin''))
      = row_callback exact_runtime (Num (Fin (- 46))) (Num (Fin 2)) (Num (Fin 15)) space_row
   \<and> bin_field exact_runtime space_row (str ''s5_now_bin'') (str ''s5 now bin'')
      = str ''(-50,-45]''"
proof -
  have n: "space_row (str ''s5_now_bin'') = None" "space_row (str ''s10_now_bin'') = None"
    "space_row (str ''s20_now_bin'') = None"
    by (simp_all add: space_row_def str_def)
  have g: "get_prop space_row (str ''s5_now_bin'') = Undefined"
    "get_prop space_row (str ''s5 now bin'') = StringV (str ''(-50,-45]'')"
    by (simp_all add: get_prop_def space_row_def str_def)
  from bin_field_resolution[of exact_runtime space_row "str ''s5_now_bin''" "str ''s5 now bin''"
      "Num (Fin (- 46))" "Num (Fin 2)" "Num (Fin 15)"] n
  show ?thesis by (simp add: g)
qed

text \<open>
  An empty input string fails to parse, and the handler returns the state as it is:
  nothing is shown by \<open>alert\<close>, so this failure is not reported.
\<close>

theorem findMatch_refuses_unparsed_inputs_counterexample:
  "fails_to_parse exact_runtime (inputs (example_state [] (str ''2'') (str ''15'')))
   \<and> findMatch exact_runtime (example_state [] (str ''2'') (str ''15''))
       = Inr (example_state [] (str ''2'') (str ''15''))
   \<and> alerts (example_state [] (str ''2'') (str ''15'')) = []"
  by (simp add: findMatch_def fails_to_parse_def example_state_def parseFloat_empty isNaN_def)

text \<open>
  C6, amended. If any of the three input strings fails to parse, \<open>findMatch\<close> does not
  search: it returns normally, sets no result, so the outcome is never a not-found, and
  leaves the rows, the inputs and the result shown before as they were. It reports the
  failure by an alert when all three strings are non-empty; when one of them is empty it
  returns without any report.
\<close>

theorem findMatch_refuses_unparsed_inputs:
  assumes "fails_to_parse rt (inputs st)"
  shows "\<exists>st'. findMatch rt st = Inr st'
           \<and> matchResult st' = matchResult st \<and> data st' = data st \<and> inputs st' = inputs st
           \<and> alerts st' = (if some_empty (inputs st) then alerts st
                           else alerts st @ [invalid_number_alert])"
  using findMatch_refused[OF assms] by simp

theorem findMatch_refuses_unparsed_inputs_witness:
  "fails_to_parse exact_runtime (inputs (example_state (str ''abc'') (str ''2'') (str ''15'')))
   \<and> (\<exists>st'. findMatch exact_runtime (example_state (str ''abc'') (str ''2'') (str ''15'')) = Inr st'
         \<and> matchResult st' = None \<and> alerts st' = [invalid_number_alert])"
proof -
  have f: "fails_to_parse exact_runtime (inputs (example_state (str ''abc'') (str ''2'') (str ''15'')))"
    by (simp add: fails_to_parse_def example_state_def eval_defs)
  have e: "\<not> some_empty (inputs (example_state (str ''abc'') (str ''2'') (str ''15'')))"
    by (simp add: some_empty_def example_state_def str_def)
  from findMatch_refuses_unparsed_inputs[OF f] e f show ?thesis
    by (auto simp: example_state_def)
qed

text \<open>
  Bounds that are inverted as they are written may parse to the same number. In
  \<open>[9007199254740993, 9007199254740992]\<close> the lower bound is written greater than the upper
  one, both round to \<open>2^53\<close> in binary64, and the predicate returns true for the value
  \<open>2^53\<close>.
\<close>

theorem isValueInInterval_inverted_bounds_counterexample:
  "regex_match (trim (str ''[9007199254740993, 9007199254740992]''))
     = Some (str ''['', str ''9007199254740993'', str ''9007199254740992'', str '']'')
   \<and> written_value (str ''9007199254740992'') < written_value (str ''9007199254740993'')
   \<and> parseFloat binary64_runtime (str ''9007199254740993'') = Num (Fin 9007199254740992)
   \<and> parseFloat binary64_runtime (str ''9007199254740992'') = Num (Fin 9007199254740992)
   \<and> isValueInInterval binary64_runtime (Num (Fin 9007199254740992))
        (StringV (str ''[9007199254740993, 9007199254740992]'')) = Inr True"
proof -
  have m: "regex_match (trim (str ''[9007199254740993, 9007199254740992]''))
     = Some (str ''['', str ''9007199254740993'', str ''9007199254740992'', str '']'')"
    by (simp add: eval_defs)
  have w: "written_value (str ''9007199254740992'') < written_value (str ''9007199254740993'')"
    by (simp add: written_value_def Let_def str_def is_digit_def digits_value_def)
  have p: "parseFloat binary64_runtime (str ''9007199254740993'') = Num (Fin 9007199254740992)"
    "parseFloat binary64_runtime (str ''9007199254740992'') = Num (Fin 9007199254740992)"
    by (simp_all add: parseFloat_def unsigned_literal_def digits_value_def exponent_part_def
        scale_def str_def is_space_def is_digit_def Let_def binary64_runtime_def binary64_examples)
  have b: "str ''['' \<noteq> str ''(''" "str '']'' \<noteq> str '')''" by (simp_all add: str_def)
  have "isValueInInterval binary64_runtime (Num (Fin 9007199254740992))
        (StringV (str ''[9007199254740993, 9007199254740992]'')) = Inr True"
    unfolding isValueInInterval_on_match[OF m] p
    by (simp add: b js_ge_def js_le_def)
  with m w p show ?thesis by blast
qed

text \<open>
  C7, amended. For every string that the pattern accepts and whose lower bound, as
  \<open>parseFloat\<close> returns it, is greater than its upper bound, as \<open>parseFloat\<close> returns it,
  the predicate returns false for every value: the two bound tests are evaluated as they
  stand, on the parsed numbers.
\<close>

theorem isValueInInterval_inverted_bounds:
  assumes "regex_match (trim s) = Some (b1, lo, hi, b2)"
    and "js_gt (parseFloat rt lo) (parseFloat rt hi)"
  shows "isValueInInterval rt v (StringV s) = Inr False"
  using isValueInInterval_on_match[OF assms(1), of rt v] inverted_bounds[OF assms(2), of v]
  by (auto split: if_splits)

theorem isValueInInterval_inverted_bounds_witness:
  "regex_match (trim (str ''[10, 5]'')) = Some (str ''['', str ''10'', str ''5'', str '']'')
   \<and> js_gt (parseFloat exact_runtime (str ''10'')) (parseFloat exact_runtime (str ''5''))
   \<and> isValueInInterval exact_runtime (Num (Fin 7)) (StringV (str ''[10, 5]'')) = Inr False"
proof -
  have m: "regex_match (trim (str ''[10, 5]'')) = Some (str ''['', str ''10'', str ''5'', str '']'')"
    by (simp add: eval_defs)
  have g: "js_gt (parseFloat exact_runtime (str ''10'')) (parseFloat exact_runtime (str ''5''))"
    by (simp add: eval_defs exact_runtime_def)
  from isValueInInterval_inverted_bounds[OF m g, of "Num (Fin 7)"] m g show ?thesis by simp
qed

text \<open>
  C8. On the dataset of two rows from the specification, the inputs -46, 2 and 15 give the
  first row (\<open>stat\<close> 1), the inputs -44, 2 and 15 give the second row (\<open>stat\<close> 2), and the
  inputs -40, 2 and 15 give not-found; both for the search on the three numbers and for
  \<open>findMatch\<close> on the three input strings.
\<close>

theorem findMatch_example_dataset:
  assumes "exact_on_integers rt"
  shows "search rt [example_row1, example_row2] (Num (Fin (- 46))) (Num (Fin 2)) (Num (Fin 15))
           = Inr \<lparr>found = True, row = Some example_row1, error = None\<rparr>
       \<and> search rt [example_row1, example_row2] (Num (Fin (- 44))) (Num (Fin 2)) (Num (Fin 15))
           = Inr \<lparr>found = True, row = Some example_row2, error = None\<rparr>
       \<and> search rt [example_row1, example_row2] (Num (Fin (- 40))) (Num (Fin 2)) (Num (Fin 15))
           = Inr \<lparr>found = False, row = None, error = None\<rparr>
       \<and> findMatch rt (example_state (str ''-46'') (str ''2'') (str ''15''))
           = Inr ((example_state (str ''-46'') (str ''2'') (str ''15''))
                   \<lparr>matchResult := Some \<lparr>found = True, row = Some example_row1, error = None\<rparr>\<rparr>)
       \<and> findMatch rt (example_state (str ''-44'') (str ''2'') (str ''15''))
           = Inr ((example_state (str ''-44'') (str ''2'') (str ''15''))
                   \<lparr>matchResult := Some \<lparr>found = True, row = Some example_row2, error = None\<rparr>\<rparr>)
       \<and> findMatch rt (example_state (str ''-40'') (str ''2'') (str ''15''))
           = Inr ((example_state (str ''-40'') (str ''2'') (str ''15''))
                   \<lparr>matchResult := Some \<lparr>found = False, row = None, error = None\<rparr>\<rparr>)
       \<and> example_row1 (str ''stat'') = Some (NumberV (Num (Fin 1)))
       \<and> example_row2 (str ''stat'') = Some (NumberV (Num (Fin 2)))"
proof -
  have ne: "str ''-46'' \<noteq> []" "str ''-44'' \<noteq> []" "str ''-40'' \<noteq> []" "str ''2'' \<noteq> []"
    "str ''15'' \<noteq> []"
    by (simp_all add: str_def)
  have st: "example_row1 (str ''stat'') = Some (NumberV (Num (Fin 1)))"
    "example_row2 (str ''stat'') = Some (NumberV (Num (Fin 2)))"
    by (simp_all add: example_row1_def example_row2_def str_def)
  show ?thesis
    by (simp add: findMatch_def example_state_def ne st isNaN_def Let_def
        example_inputs[OF assms] example_search[OF assms])
qed

theorem findMatch_example_dataset_witness:
  "exact_on_integers exact_runtime
   \<and> findMatch exact_runtime (example_state (str ''-44'') (str ''2'') (str ''15''))
       = Inr ((example_state (str ''-44'') (str ''2'') (str ''15''))
               \<lparr>matchResult := Some \<lparr>found = True, row = Some example_row2, error = None\<rparr>\<rparr>)"
  using findMatch_example_dataset[OF exact_runtime_exact] exact_runtime_exact by simp

text \<open>
  C9. The result of a search that runs is a function of the rows and the three input
  strings alone: two states with the same rows and the same inputs, whatever result they
  showed before, end with the same result, nothing but the result shown changes, and
  running the handler again on the state it produced changes nothing.
\<close>

theorem findMatch_deterministic_stateless:
  assumes "data st1 = data st2" and "inputs st1 = inputs st2"
    and "\<not> fails_to_parse rt (inputs st1)"
  shows "\<exists>res. search rt (data st1) (parseFloat rt (s5 (inputs st1)))
                 (parseFloat rt (s10 (inputs st1))) (parseFloat rt (s20 (inputs st1))) = Inr res
           \<and> findMatch rt st1 = Inr (st1\<lparr>matchResult := Some res\<rparr>)
           \<and> findMatch rt st2 = Inr (st2\<lparr>matchResult := Some res\<rparr>)
           \<and> findMatch rt (st1\<lparr>matchResult := Some res\<rparr>) = Inr (st1\<lparr>matchResult := Some res\<rparr>)"
proof -
  obtain res where r: "search rt (data st1) (parseFloat rt (s5 (inputs st1)))
      (parseFloat rt (s10 (inputs st1))) (parseFloat rt (s20 (inputs st1))) = Inr res"
    using search_total by blast
  have "findMatch rt st1 = Inr (st1\<lparr>matchResult := Some res\<rparr>)"
    using assms(3) r by (rule findMatch_runs)
  moreover have "findMatch rt st2 = Inr (st2\<lparr>matchResult := Some res\<rparr>)"
    using assms r by (intro findMatch_runs) simp_all
  moreover have "findMatch rt (st1\<lparr>matchResult := Some res\<rparr>)
      = Inr (st1\<lparr>matchResult := Some res, matchResult := Some res\<rparr>)"
    using assms(3) r by (intro findMatch_runs) simp_all
  ultimately show ?thesis using r by auto
qed

theorem findMatch_deterministic_stateless_witness:
  "\<not> fails_to_parse exact_runtime (inputs (example_state (str ''-46'') (str ''2'') (str ''15'')))
   \<and> (\<exists>res. findMatch exact_runtime (example_state (str ''-46'') (str ''2'') (str ''15''))
               = Inr ((example_state (str ''-46'') (str ''2'') (str ''15''))\<lparr>matchResult := Some res\<rparr>)
         \<and> findMatch exact_runtime
               ((example_state (str ''-46'') (str ''2'') (str ''15''))
                  \<lparr>matchResult := Some \<lparr>found = False, row = None, error = None\<rparr>\<rparr>)
               = Inr ((example_state (str ''-46'') (str ''2'') (str ''15''))\<lparr>matchResult := Some res\<rparr>))"
proof -
  have f: "\<not> fails_to_parse exact_runtime
             (inputs (example_state (str ''-46'') (str ''2'') (str ''15'')))"
    by (simp add: fails_to_parse_def example_state_def isNaN_def
        example_inputs[OF exact_runtime_exact])
  from findMatch_deterministic_stateless[of "example_state (str ''-46'') (str ''2'') (str ''15'')"
      "(example_state (str ''-46'') (str ''2'') (str ''15''))
         \<lparr>matchResult := Some \<lparr>found = False, row = None, error = None\<rparr>\<rparr>" exact_runtime] f
  show ?thesis by auto
qed

text \<open>
  C10. For every string that the pattern accepts, both captured bounds parse to a number
  that is not NaN, so the guard on NaN does not fire and the result of the predicate is
  the conjunction of the two bracket comparisons.
\<close>

theorem parsed_bounds_never_NaN:
  assumes "regex_match (trim s) = Some (b1, lo, hi, b2)"
  shows "\<not> isNaN (parseFloat rt lo) \<and> \<not> isNaN (parseFloat rt hi)
    \<and> isValueInInterval rt v (StringV s) =
        Inr ((if b1 = str ''('' then js_gt v (parseFloat rt lo) else js_ge v (parseFloat rt lo))
           \<and> (if b2 = str '')'' then js_lt v (parseFloat rt hi) else js_le v (parseFloat rt hi)))"
proof -
  from regex_match_SomeD[OF assms] have "pattern_number lo" "pattern_number hi" by blast+
  then have "parseFloat rt lo \<noteq> NaN" "parseFloat rt hi \<noteq> NaN"
    by (simp_all add: parseFloat_pattern_number)
  then show ?thesis
    using isValueInInterval_on_match[OF assms, of rt v] by (simp add: isNaN_def)
qed

theorem parsed_bounds_never_NaN_witness:
  "regex_match (trim (str ''[-0.5 , 12.)'')) = Some (str ''['', str ''-0.5'', str ''12.'', str '')'')
   \<and> \<not> isNaN (parseFloat exact_runtime (str ''-0.5''))
   \<and> \<not> isNaN (parseFloat exact_runtime (str ''12.''))
   \<and> isValueInInterval exact_runtime (Num (Fin 3)) (StringV (str ''[-0.5 , 12.)'')) = Inr True"
proof -
  have m: "regex_match (trim (str ''[-0.5 , 12.)''))
             = Some (str ''['', str ''-0.5'', str ''12.'', str '')'')"
    by (simp add: eval_defs)
  have p: "parseFloat exact_runtime (str ''-0.5'') = Num (Fin (- (1 / 2)))"
    "parseFloat exact_runtime (str ''12.'') = Num (Fin 12)"
    by (simp_all add: eval_defs exact_runtime_def)
  from parsed_bounds_never_NaN[OF m, of exact_runtime "Num (Fin 3)"] m show ?thesis
    by (simp add: p js_lt_def js_ge_def isNaN_def) (simp add: str_def)
qed

end
